theory Spec2Isabelle
  imports Main
begin

section \<open>Errors\<close>

text \<open>
  Go \<open>error\<close> values. \<open>New\<close> is \<open>errors.New\<close>, \<open>Errorf msg e\<close> is
  \<open>fmt.Errorf("msg: %w", e)\<close> (the wrapped error stays reachable), \<open>Join\<close> is the value built
  by \<open>errors.Join\<close>, \<open>Status\<close> is an API status error of apimachinery with its reason, and
  \<open>StatusCodeError code body\<close> is the
  \<open>fmt.Errorf("unexpected status code: %d body: %s", ...)\<close> of the scanner.
  A nil error is \<open>None\<close> of \<open>error option\<close>.
\<close>

datatype StatusReason = StatusReasonNotFound | StatusReasonConflict | StatusReasonOther

datatype error =
    New string
  | Status StatusReason
  | StatusCodeError int string
  | Errorf string error
  | Join "error list"

text \<open>\<open>errors.Join\<close>: nil arguments are dropped; nil when nothing is left.\<close>

definition errors_Join :: "error option list \<Rightarrow> error option" where
  "errors_Join errs =
     (let es = List.map_filter id errs in if es = [] then None else Some (Join es))"

text \<open>The errors aggregated in a value, with every \<open>Join\<close> node flattened, in order.\<close>

fun joined :: "error \<Rightarrow> error list" where
  "joined (Join es) = concat (map joined es)"
| "joined e = [e]"

definition joined_opt :: "error option \<Rightarrow> error list" where
  "joined_opt err = (case err of None \<Rightarrow> [] | Some e \<Rightarrow> joined e)"

text \<open>The zerolog levels the code logs at.\<close>

datatype level = DebugLevel | InfoLevel | ErrorLevel

section \<open>The report cache (internal/report/store.go)\<close>

text \<open>
  Modelled from the spec: the types \<open>PolicyReport\<close>, \<open>ClusterPolicyReport\<close> and their result
  rows are declared outside \<open>store.go\<close>. A result row references a policy and a resource and
  carries the verdict (\<open>allowed\<close>, \<open>errored\<close>); a report has the object metadata the store
  reads (\<open>Namespace\<close>, \<open>Name\<close>, \<open>ResourceVersion\<close>) and its rows.
\<close>

record PolicyReportResult =
  result_policy :: string
  result_resource :: string
  result_allowed :: bool
  result_errored :: bool

record PolicyReport =
  Namespace :: string
  Name :: string
  ResourceVersion :: string
  Results :: "PolicyReportResult list"

record ClusterPolicyReport =
  cluster_Name :: string
  cluster_ResourceVersion :: string
  cluster_Results :: "PolicyReportResult list"

text \<open>The zero value \<open>PolicyReport{}\<close>.\<close>

definition zero_PolicyReport :: PolicyReport where
  "zero_PolicyReport = \<lparr>Namespace = [], Name = [], ResourceVersion = [], Results = []\<rparr>"

text \<open>
  Modelled from the spec: \<open>NewClusterPolicyReport(name)\<close> as \<open>store.go\<close> calls it, a fresh
  report of that name without rows.
\<close>

definition NewClusterPolicyReport :: "string \<Rightarrow> ClusterPolicyReport" where
  "NewClusterPolicyReport name =
     \<lparr>cluster_Name = name, cluster_ResourceVersion = [], cluster_Results = []\<rparr>"

text \<open>
  The cache: a Go map from namespace to report and the one cluster report. The two mutexes
  only serialise access and the model is sequential; the repository client is the subject of
  \<open>Save\<close> below and is passed there.
\<close>

record PolicyReportStore =
  namespacedPolicyReports :: "string \<rightharpoonup> PolicyReport"
  clusterPolicyReport :: ClusterPolicyReport

definition MockNewPolicyReportStore :: PolicyReportStore where
  "MockNewPolicyReportStore =
     \<lparr>namespacedPolicyReports = Map.empty,
      clusterPolicyReport = NewClusterPolicyReport ''clusterwide''\<rparr>"

text \<open>Every operation returns its Go results and the store after the call.\<close>

definition AddPolicyReport :: "PolicyReportStore \<Rightarrow> PolicyReport \<Rightarrow> error option \<times> PolicyReportStore" where
  "AddPolicyReport s report =
     (None, s\<lparr>namespacedPolicyReports := (namespacedPolicyReports s)(Namespace report \<mapsto> report)\<rparr>)"

definition AddClusterPolicyReport :: "PolicyReportStore \<Rightarrow> ClusterPolicyReport \<Rightarrow> error option \<times> PolicyReportStore" where
  "AddClusterPolicyReport s report = (None, s\<lparr>clusterPolicyReport := report\<rparr>)"

definition GetPolicyReport :: "PolicyReportStore \<Rightarrow> string \<Rightarrow> PolicyReport \<times> error option" where
  "GetPolicyReport s namespace =
     (case namespacedPolicyReports s namespace of
        Some report \<Rightarrow> (report, None)
      | None \<Rightarrow> (zero_PolicyReport, Some (New ''report not found'')))"

definition GetClusterPolicyReport :: "PolicyReportStore \<Rightarrow> ClusterPolicyReport \<times> error option" where
  "GetClusterPolicyReport s = (clusterPolicyReport s, None)"

definition UpdatePolicyReport :: "PolicyReportStore \<Rightarrow> PolicyReport \<Rightarrow> error option \<times> PolicyReportStore" where
  "UpdatePolicyReport s report =
     (None, s\<lparr>namespacedPolicyReports := (namespacedPolicyReports s)(Namespace report \<mapsto> report)\<rparr>)"

definition UpdateClusterPolicyReport :: "PolicyReportStore \<Rightarrow> ClusterPolicyReport \<Rightarrow> error option \<times> PolicyReportStore" where
  "UpdateClusterPolicyReport s report = (None, s\<lparr>clusterPolicyReport := report\<rparr>)"

definition RemovePolicyReport :: "PolicyReportStore \<Rightarrow> string \<Rightarrow> error option \<times> PolicyReportStore" where
  "RemovePolicyReport s namespace =
     (if snd (GetPolicyReport s namespace) = None
      then (None, s\<lparr>namespacedPolicyReports := (namespacedPolicyReports s)(namespace := None)\<rparr>)
      else (None, s))"

definition RemoveAllNamespacedPolicyReports :: "PolicyReportStore \<Rightarrow> error option \<times> PolicyReportStore" where
  "RemoveAllNamespacedPolicyReports s = (None, s\<lparr>namespacedPolicyReports := Map.empty\<rparr>)"

section \<open>Save: reconciling a report with the repository (internal/report/store.go)\<close>

text \<open>
  \<open>errors.ReasonForError\<close> of apimachinery finds the first API status in the chain of an
  error, through wrapping and joining; \<open>IsNotFound\<close> and \<open>IsConflict\<close> compare its reason.
\<close>

fun ReasonForError :: "error \<Rightarrow> StatusReason option" where
  "ReasonForError (New msg) = None"
| "ReasonForError (Status reason) = Some reason"
| "ReasonForError (StatusCodeError code body) = None"
| "ReasonForError (Errorf msg err) = ReasonForError err"
| "ReasonForError (Join errs) =
     (case filter (\<lambda>r. r \<noteq> None) (map ReasonForError errs) of [] \<Rightarrow> None | r # rs \<Rightarrow> r)"

definition IsNotFound :: "error option \<Rightarrow> bool" where
  "IsNotFound err =
     (case err of None \<Rightarrow> False | Some e \<Rightarrow> ReasonForError e = Some StatusReasonNotFound)"

definition IsConflict :: "error option \<Rightarrow> bool" where
  "IsConflict err =
     (case err of None \<Rightarrow> False | Some e \<Rightarrow> ReasonForError e = Some StatusReasonConflict)"

text \<open>
  The controller-runtime client, which other writers share: a state \<open>'c\<close> of its own and
  three calls that answer and change it. \<open>client_Get\<close> takes the namespaced name and gives
  the object read or an error.
\<close>

record 'c client =
  client_Get :: "string \<times> string \<Rightarrow> 'c \<Rightarrow> (error + PolicyReport) \<times> 'c"
  client_Create :: "PolicyReport \<Rightarrow> 'c \<Rightarrow> error option \<times> 'c"
  client_Update :: "PolicyReport \<Rightarrow> 'c \<Rightarrow> error option \<times> 'c"

text \<open>What \<open>Save\<close> does, in order: the client calls with their answers, and the log lines.\<close>

datatype store_event =
    StoreLog level string
  | ClientGet "string \<times> string" "error + PolicyReport"
  | ClientCreate PolicyReport "error option"
  | ClientUpdate PolicyReport "error option"

text \<open>
  \<open>retry.RetryOnConflict\<close> of client-go for a backoff of \<open>steps\<close> steps: \<open>fn\<close> runs until it
  returns nil or an error that is not a conflict, at most \<open>steps\<close> times; when the steps are
  used up the result is the last conflict. The pauses between attempts are not modelled.
  \<open>retry.DefaultRetry\<close> has five steps.
\<close>

fun retry_OnConflict ::
  "nat \<Rightarrow> ('s \<Rightarrow> (store_event list \<times> error option) \<times> 's) \<Rightarrow> error option \<Rightarrow> 's \<Rightarrow>
   (store_event list \<times> error option) \<times> 's" where
  "retry_OnConflict 0 fn lastErr s = (([], lastErr), s)"
| "retry_OnConflict (Suc n) fn lastErr s =
     (case fn s of ((evs, err), s') \<Rightarrow>
        if err = None then ((evs, None), s')
        else if IsConflict err then
          (case retry_OnConflict n fn err s' of ((evs', r), s'') \<Rightarrow> ((evs @ evs', r), s''))
        else ((evs, err), s'))"

definition RetryOnConflict ::
  "nat \<Rightarrow> ('s \<Rightarrow> (store_event list \<times> error option) \<times> 's) \<Rightarrow> 's \<Rightarrow>
   (store_event list \<times> error option) \<times> 's" where
  "RetryOnConflict steps fn s = retry_OnConflict steps fn None s"

definition DefaultRetry_Steps :: nat where
  "DefaultRetry_Steps = 5"

text \<open>
  The closure given to \<open>RetryOnConflict\<close>. It reads and changes the caller's report (through
  the pointer) and the client. The log call of its not-found branch has no \<open>Msg\<close>, so
  nothing is logged there.
\<close>

definition update_attempt ::
  "'c client \<Rightarrow> PolicyReport \<times> 'c \<Rightarrow> (store_event list \<times> error option) \<times> (PolicyReport \<times> 'c)" where
  "update_attempt cl s =
     (case s of (report, c) \<Rightarrow>
      case client_Get cl (Namespace report, Name report) c of (got, c1) \<Rightarrow>
        (case got of
           Inl err \<Rightarrow>
             if IsNotFound (Some err)
             then (([ClientGet (Namespace report, Name report) got], None), (report, c1))
             else (([ClientGet (Namespace report, Name report) got],
                    Some (Errorf ''failed when getting PolicyReport'' err)), (report, c1))
         | Inr getObj \<Rightarrow>
             (case client_Update cl (report\<lparr>ResourceVersion := ResourceVersion getObj\<rparr>) c1 of
                (updateErr, c2) \<Rightarrow>
                  (([ClientGet (Namespace report, Name report) got,
                     ClientUpdate (report\<lparr>ResourceVersion := ResourceVersion getObj\<rparr>) updateErr],
                    updateErr),
                   (report\<lparr>ResourceVersion := ResourceVersion getObj\<rparr>, c2)))))"

text \<open>The error of a \<open>Get\<close>, nil when it found the object.\<close>

definition get_error :: "error + PolicyReport \<Rightarrow> error option" where
  "get_error got = (case got of Inl err \<Rightarrow> Some err | Inr obj \<Rightarrow> None)"

text \<open>\<open>Save\<close> returns its events and its error, and leaves the report and the client.\<close>

definition Save ::
  "'c client \<Rightarrow> PolicyReport \<Rightarrow> 'c \<Rightarrow> (store_event list \<times> error option) \<times> (PolicyReport \<times> 'c)" where
  "Save cl report c =
     (case client_Get cl (Namespace report, Name report) c of (got, c1) \<Rightarrow>
        if IsNotFound (get_error got) then
          (case client_Create cl report c1 of (err, c2) \<Rightarrow>
             (([ClientGet (Namespace report, Name report) got,
                StoreLog InfoLevel ''creating policy report...'',
                ClientCreate report err],
               (case err of
                  Some e \<Rightarrow> Some (Errorf ''failed when creating PolicyReport'' e)
                | None \<Rightarrow> None)),
              (report, c2)))
        else
          (case RetryOnConflict DefaultRetry_Steps (update_attempt cl) (report, c1) of
             ((evs, retryErr), s') \<Rightarrow>
               (([ClientGet (Namespace report, Name report) got,
                  StoreLog InfoLevel ''updating policy report...'']
                 @ evs
                 @ (if retryErr \<noteq> None
                    then [StoreLog ErrorLevel ''PolicyReport update failed''] else [])
                 @ [StoreLog InfoLevel ''updated PolicyReport''],
                 None),
                s')))"

section \<open>The scanner (internal/scanner/scanner.go)\<close>

subsection \<open>Data\<close>

text \<open>
  \<open>unstructured.Unstructured\<close>, the audited object: the accessors the scanner and the report
  constructors read. \<open>GetLabels\<close> is a Go map.
\<close>

record Unstructured =
  GetUID :: string
  GetNamespace :: string
  GetName :: string
  GetLabels :: "string \<rightharpoonup> string"

text \<open>What a pager hands to its callback: a \<open>runtime.Object\<close>, unstructured or not.\<close>

datatype runtime_Object = UnstructuredObject Unstructured | OtherObject string

text \<open>\<open>metav1.LabelSelector\<close>: match labels and (key, operator, values) requirements.\<close>

record LabelSelector =
  MatchLabels :: "(string \<times> string) list"
  MatchExpressions :: "(string \<times> string \<times> string list) list"

text \<open>
  \<open>policiesv1.Policy\<close> is an interface; the scanner calls \<open>GetName()\<close> and
  \<open>GetObjectSelector()\<close>, which is nil (\<open>None\<close>) for a policy without selector.
  \<open>policies.Policy\<close> pairs it with the URL of its policy server.
\<close>

record policiesv1_Policy =
  policy_GetName :: string
  GetObjectSelector :: "LabelSelector option"

record policies_Policy =
  Policy :: policiesv1_Policy
  PolicyServer :: string

datatype GroupVersionResource = GVR string string string

text \<open>
  The result of the policy catalog. \<open>PoliciesByGVR\<close> is a Go map; the list is the order in
  which \<open>range\<close> happens to visit it.
\<close>

record Policies =
  PoliciesByGVR :: "(GroupVersionResource \<times> policies_Policy list) list"
  PolicyNum :: int
  SkippedNum :: int

text \<open>\<open>admissionv1.AdmissionReview\<close>: request and response are pointers, nil is \<open>None\<close>.\<close>

record AdmissionRequest =
  request_Name :: string
  request_Object :: Unstructured

record AdmissionResponse =
  UID :: string
  Allowed :: bool

record AdmissionReview =
  Request :: "AdmissionRequest option"
  Response :: "AdmissionResponse option"

text \<open>An HTTP response: the status code and what \<open>io.ReadAll\<close> of its body gives.\<close>

record http_Response =
  StatusCode :: int
  Body :: "error + string"

subsection \<open>Effects\<close>

text \<open>
  What a scan does to the outside is write-only: log lines, requests posted to policy servers
  and reports handed to the store. A function returns the events it caused, in order, next to
  its result. A log event has the level, the message and the string fields that identify the
  scope. A Go panic (here always a nil pointer dereference) ends the function with \<open>Inl\<close>,
  after the events that came before it.
\<close>

datatype event =
    Log level string "(string \<times> string) list"
  | PolicyServerRequest string string
  | StorePolicyReport PolicyReport
  | StoreClusterPolicyReport ClusterPolicyReport

datatype panic = NilPointerDereference

type_synonym 'a outcome = "event list \<times> (panic + 'a)"

definition emit :: "event list \<Rightarrow> 'a outcome \<Rightarrow> 'a outcome" where
  "emit evs m = (evs @ fst m, snd m)"

text \<open>
  The collaborators of the scanner that are not in the repository's sources shown here, and
  the library calls whose answer depends on the outside world. Each is a function of its
  arguments. \<open>LabelSelectorAsSelector\<close> compiles a selector to its \<open>Matches\<close> predicate on
  label sets, or fails; \<open>httpClient_Do url payload\<close> is the POST; \<open>GetResources\<close> gives the
  pager as the sequence of what listing yields: an object, or the error of a failed page.
\<close>

record Namespace_item =
  ns_Name :: string

record env =
  LabelSelectorAsSelector :: "LabelSelector \<Rightarrow> error + ((string \<rightharpoonup> string) \<Rightarrow> bool)"
  json_Marshal :: "AdmissionReview \<Rightarrow> error + string"
  httpClient_Do :: "string \<Rightarrow> string \<Rightarrow> error + http_Response"
  json_Unmarshal :: "string \<Rightarrow> error + AdmissionReview"
  k8s_GetNamespace :: "string \<Rightarrow> error option"
  GetPoliciesForANamespace :: "string \<Rightarrow> error + Policies"
  GetClusterWidePolicies :: "error + Policies"
  GetResources :: "GroupVersionResource \<Rightarrow> string \<Rightarrow> error + (error + runtime_Object) list"
  GetAuditedNamespaces :: "Namespace_item list \<times> error option"
  CreateOrPatchPolicyReport :: "PolicyReport \<Rightarrow> error option"
  CreateOrPatchClusterPolicyReport :: "ClusterPolicyReport \<Rightarrow> error option"

subsection \<open>Helpers of the repository that are outside the sources shown\<close>

text \<open>
  Modelled from the spec: \<open>newAdmissionReview\<close>, which "builds a self-contained evaluation
  request embedding the resource content"; the request is present and the response is not.
\<close>

definition newAdmissionReview :: "Unstructured \<Rightarrow> AdmissionReview" where
  "newAdmissionReview resource =
     \<lparr>Request = Some \<lparr>request_Name = GetName resource, request_Object = resource\<rparr>,
      Response = None\<rparr>"

text \<open>
  Modelled from the spec: \<open>report.NewPolicyReport(resource)\<close> and
  \<open>report.NewClusterPolicyReport(resource)\<close> as the scanner calls them, a fresh report
  without rows that belongs to the resource it is given.
\<close>

definition NewPolicyReport :: "Unstructured \<Rightarrow> PolicyReport" where
  "NewPolicyReport resource =
     \<lparr>Namespace = GetNamespace resource, Name = GetUID resource, ResourceVersion = [],
      Results = []\<rparr>"

definition NewClusterPolicyReport_of :: "Unstructured \<Rightarrow> ClusterPolicyReport" where
  "NewClusterPolicyReport_of resource =
     \<lparr>cluster_Name = GetUID resource, cluster_ResourceVersion = [], cluster_Results = []\<rparr>"

text \<open>
  Modelled from the spec: \<open>report.AddResultToPolicyReport\<close> and its cluster twin append one
  row for the policy: the verdict's \<open>allowed\<close> from the response when the call did not
  fail, and the \<open>errored\<close> flag.
\<close>

definition new_result :: "string \<Rightarrow> policiesv1_Policy \<Rightarrow> AdmissionResponse option \<Rightarrow> bool \<Rightarrow> PolicyReportResult" where
  "new_result resource_name policy response errored =
     \<lparr>result_policy = policy_GetName policy, result_resource = resource_name,
      result_allowed = (\<not> errored \<and> (case response of None \<Rightarrow> False | Some r \<Rightarrow> Allowed r)),
      result_errored = errored\<rparr>"

definition AddResultToPolicyReport :: "PolicyReport \<Rightarrow> policiesv1_Policy \<Rightarrow> AdmissionResponse option \<Rightarrow> bool \<Rightarrow> PolicyReport" where
  "AddResultToPolicyReport policyReport policy response errored =
     policyReport\<lparr>Results := Results policyReport @ [new_result (Name policyReport) policy response errored]\<rparr>"

definition AddResultToClusterPolicyReport :: "ClusterPolicyReport \<Rightarrow> policiesv1_Policy \<Rightarrow> AdmissionResponse option \<Rightarrow> bool \<Rightarrow> ClusterPolicyReport" where
  "AddResultToClusterPolicyReport policyReport policy response errored =
     policyReport\<lparr>cluster_Results := cluster_Results policyReport
        @ [new_result (cluster_Name policyReport) policy response errored]\<rparr>"

subsection \<open>policyMatches\<close>

definition policyMatches :: "env \<Rightarrow> policiesv1_Policy \<Rightarrow> Unstructured \<Rightarrow> event list \<times> bool \<times> error option" where
  "policyMatches env policy resource =
     (case GetObjectSelector policy of
        None \<Rightarrow> ([], True, None)
      | Some sel \<Rightarrow>
          (case LabelSelectorAsSelector env sel of
             Inl err \<Rightarrow>
               ([Log ErrorLevel ''error creating label selector from policy'' []], False, Some err)
           | Inr selector \<Rightarrow>
               if \<not> selector (GetLabels resource) then ([], False, None) else ([], True, None)))"

subsection \<open>sendAdmissionReviewToPolicyServer\<close>

text \<open>
  The Go results \<open>(*AdmissionReview, error)\<close> as a pair of options: every failing return is
  \<open>(nil, err)\<close>. \<open>http.NewRequestWithContext\<close> gets a constant method, the caller's context
  and the text of a parsed URL; the source discards its error and so does the model.
\<close>

definition sendAdmissionReviewToPolicyServer ::
  "env \<Rightarrow> string \<Rightarrow> AdmissionReview \<Rightarrow> event list \<times> AdmissionReview option \<times> error option" where
  "sendAdmissionReviewToPolicyServer env url admissionRequest =
     (case json_Marshal env admissionRequest of
        Inl err \<Rightarrow> ([], None, Some err)
      | Inr payload \<Rightarrow>
          (case httpClient_Do env url payload of
             Inl err \<Rightarrow> ([PolicyServerRequest url payload], None, Some err)
           | Inr res \<Rightarrow>
               (case Body res of
                  Inl err \<Rightarrow>
                    ([PolicyServerRequest url payload], None,
                     Some (Errorf ''cannot read body of response'' err))
                | Inr body \<Rightarrow>
                    if StatusCode res \<noteq> 200
                    then ([PolicyServerRequest url payload], None,
                          Some (StatusCodeError (StatusCode res) body))
                    else
                      (case json_Unmarshal env body of
                         Inl err \<Rightarrow>
                           ([PolicyServerRequest url payload], None,
                            Some (Errorf ''cannot deserialize the audit review response'' err))
                       | Inr admissionReview \<Rightarrow>
                           ([PolicyServerRequest url payload], Some admissionReview, None)))))"

subsection \<open>auditResource and auditClusterResource\<close>

text \<open>
  One turn of the loop over the policies, the same text in both functions but for the report
  type and the function that adds a row (\<open>add\<close>). The report goes in and comes out;
  \<open>continue\<close> gives it back unchanged. The arguments of a log call are evaluated whatever the
  log level, so the pointers they read are dereferenced: \<open>admissionRequest.Request\<close> in the
  error branch, \<open>auditResponse\<close> and \<open>auditResponse.Response\<close> in the other. The call of
  \<open>add\<close> reads \<open>auditResponse.Response\<close> in both branches.
\<close>

definition audit_policy ::
  "env \<Rightarrow> ('r \<Rightarrow> policiesv1_Policy \<Rightarrow> AdmissionResponse option \<Rightarrow> bool \<Rightarrow> 'r) \<Rightarrow>
   Unstructured \<Rightarrow> policies_Policy \<Rightarrow> 'r \<Rightarrow> 'r outcome" where
  "audit_policy env add resource p rep =
     (let url = PolicyServer p; policy = Policy p in
      case policyMatches env policy resource of (evs1, matches, err) \<Rightarrow>
      emit (evs1 @ (if err \<noteq> None then [Log ErrorLevel ''error matching policy to resource'' []] else []))
       (if \<not> matches then ([], Inr rep)
        else
          let admissionRequest = newAdmissionReview resource in
          case sendAdmissionReviewToPolicyServer env url admissionRequest of
            (evs2, auditResponse, responseErr) \<Rightarrow>
          emit evs2
           (if responseErr \<noteq> None then
              (case Request admissionRequest of
                 None \<Rightarrow> ([], Inl NilPointerDereference)
               | Some request \<Rightarrow>
                   emit [Log ErrorLevel ''error sending AdmissionReview to PolicyServer''
                           [(''admissionRequest name'', request_Name request),
                            (''policy'', policy_GetName policy),
                            (''resource'', GetName resource)]]
                    (case auditResponse of
                       None \<Rightarrow> ([], Inl NilPointerDereference)
                     | Some review \<Rightarrow> ([], Inr (add rep policy (Response review) True))))
            else
              (case auditResponse of
                 None \<Rightarrow> ([], Inl NilPointerDereference)
               | Some review \<Rightarrow>
                   (case Response review of
                      None \<Rightarrow> ([], Inl NilPointerDereference)
                    | Some response \<Rightarrow>
                        ([Log DebugLevel ''audit review response''
                            [(''uid'', UID response),
                             (''policy'', policy_GetName policy),
                             (''resource'', GetName resource)]],
                         Inr (add rep policy (Response review) False)))))))"

fun audit_policies ::
  "env \<Rightarrow> ('r \<Rightarrow> policiesv1_Policy \<Rightarrow> AdmissionResponse option \<Rightarrow> bool \<Rightarrow> 'r) \<Rightarrow>
   Unstructured \<Rightarrow> policies_Policy list \<Rightarrow> 'r \<Rightarrow> 'r outcome" where
  "audit_policies env add resource [] rep = ([], Inr rep)"
| "audit_policies env add resource (p # ps) rep =
     (case audit_policy env add resource p rep of
        (evs, Inl pn) \<Rightarrow> (evs, Inl pn)
      | (evs, Inr rep') \<Rightarrow> emit evs (audit_policies env add resource ps rep'))"

definition auditResource :: "env \<Rightarrow> policies_Policy list \<Rightarrow> Unstructured \<Rightarrow> unit outcome" where
  "auditResource env policies resource =
     (case audit_policies env AddResultToPolicyReport resource policies (NewPolicyReport resource) of
        (evs, Inl pn) \<Rightarrow> (evs, Inl pn)
      | (evs, Inr policyreport) \<Rightarrow>
          (evs @ [StorePolicyReport policyreport]
             @ (if CreateOrPatchPolicyReport env policyreport \<noteq> None
                then [Log ErrorLevel ''error adding PolicyReport to store'' []] else []),
           Inr ()))"

definition auditClusterResource :: "env \<Rightarrow> policies_Policy list \<Rightarrow> Unstructured \<Rightarrow> unit outcome" where
  "auditClusterResource env policies resource =
     (case audit_policies env AddResultToClusterPolicyReport resource policies
             (NewClusterPolicyReport_of resource) of
        (evs, Inl pn) \<Rightarrow> (evs, Inl pn)
      | (evs, Inr clusterReport) \<Rightarrow>
          (evs @ [StoreClusterPolicyReport clusterReport]
             @ (if CreateOrPatchClusterPolicyReport env clusterReport \<noteq> None
                then [Log ErrorLevel ''error adding ClusterPolicyReport to store'' []] else []),
           Inr ()))"

subsection \<open>ScanNamespace, ScanClusterWideResources, ScanAllNamespaces\<close>

text \<open>
  \<open>pager.EachListItem\<close> of client-go: it calls \<open>fn\<close> on every object listed, in order, and
  stops with the first error, of listing or of \<open>fn\<close>.
\<close>

fun EachListItem ::
  "(error + runtime_Object) list \<Rightarrow> (runtime_Object \<Rightarrow> error option outcome) \<Rightarrow> error option outcome" where
  "EachListItem [] fn = ([], Inr None)"
| "EachListItem (Inl err # rest) fn = ([], Inr (Some err))"
| "EachListItem (Inr obj # rest) fn =
     (case fn obj of
        (evs, Inl pn) \<Rightarrow> (evs, Inl pn)
      | (evs, Inr (Some err)) \<Rightarrow> (evs, Inr (Some err))
      | (evs, Inr None) \<Rightarrow> emit evs (EachListItem rest fn))"

text \<open>
  The callback both scans give to \<open>EachListItem\<close>: the type assertion, then the audit, whose
  name is the only difference between the two.
\<close>

definition audit_item ::
  "(policies_Policy list \<Rightarrow> Unstructured \<Rightarrow> unit outcome) \<Rightarrow> policies_Policy list \<Rightarrow>
   runtime_Object \<Rightarrow> error option outcome" where
  "audit_item audit policies obj =
     (case obj of
        UnstructuredObject resource \<Rightarrow>
          (case audit policies resource of
             (evs, Inl pn) \<Rightarrow> (evs, Inl pn)
           | (evs, Inr u) \<Rightarrow> (evs, Inr None))
      | OtherObject t \<Rightarrow>
          ([], Inr (Some (New ''failed to convert runtime.Object to *unstructured.Unstructured''))))"

text \<open>The loop over \<open>PoliciesByGVR\<close>; falling out of it, both scans go on to return nil.\<close>

fun scan_gvrs ::
  "env \<Rightarrow> (policies_Policy list \<Rightarrow> Unstructured \<Rightarrow> unit outcome) \<Rightarrow> string \<Rightarrow>
   (GroupVersionResource \<times> policies_Policy list) list \<Rightarrow> error option outcome" where
  "scan_gvrs env audit nsName [] = ([], Inr None)"
| "scan_gvrs env audit nsName ((gvr, policies) # rest) =
     (case GetResources env gvr nsName of
        Inl err \<Rightarrow> ([], Inr (Some err))
      | Inr pager \<Rightarrow>
          (case EachListItem pager (audit_item audit policies) of
             (evs, Inl pn) \<Rightarrow> (evs, Inl pn)
           | (evs, Inr (Some err)) \<Rightarrow> (evs, Inr (Some err))
           | (evs, Inr None) \<Rightarrow> emit evs (scan_gvrs env audit nsName rest)))"

text \<open>
  After the policies are fetched \<open>err\<close> is nil, so neither branch of the test on
  \<open>ErrResourceNotFound\<close> logs anything.
\<close>

definition ScanNamespace :: "env \<Rightarrow> string \<Rightarrow> error option outcome" where
  "ScanNamespace env nsName =
     emit [Log InfoLevel ''namespace scan started'' [(''namespace'', nsName)]]
      (case k8s_GetNamespace env nsName of
         Some err \<Rightarrow> ([], Inr (Some err))
       | None \<Rightarrow>
           (case GetPoliciesForANamespace env nsName of
              Inl err \<Rightarrow> ([], Inr (Some err))
            | Inr policies \<Rightarrow>
                emit [Log InfoLevel ''policy count'' [(''namespace'', nsName)]]
                 (scan_gvrs env (auditResource env) nsName (PoliciesByGVR policies))))"

definition ScanClusterWideResources :: "env \<Rightarrow> error option outcome" where
  "ScanClusterWideResources env =
     emit [Log InfoLevel ''clusterwide resources scan started'' []]
      (case GetClusterWidePolicies env of
         Inl err \<Rightarrow> ([], Inr (Some err))
       | Inr policies \<Rightarrow>
           emit [Log InfoLevel ''cluster admission policies count'' []]
            (case scan_gvrs env (auditClusterResource env) [] (PoliciesByGVR policies) of
               (evs, Inl pn) \<Rightarrow> (evs, Inl pn)
             | (evs, Inr (Some err)) \<Rightarrow> (evs, Inr (Some err))
             | (evs, Inr None) \<Rightarrow>
                 (evs @ [Log InfoLevel ''clusterwide resources scan finished'' []], Inr None)))"

text \<open>The loop over \<open>nsList.Items\<close>, with the error accumulated so far.\<close>

fun scan_namespaces :: "env \<Rightarrow> Namespace_item list \<Rightarrow> error option \<Rightarrow> error option outcome" where
  "scan_namespaces env [] err = ([], Inr err)"
| "scan_namespaces env (ns # rest) err =
     (case ScanNamespace env (ns_Name ns) of
        (evs, Inl pn) \<Rightarrow> (evs, Inl pn)
      | (evs, Inr None) \<Rightarrow> emit evs (scan_namespaces env rest err)
      | (evs, Inr (Some e)) \<Rightarrow>
          emit (evs @ [Log ErrorLevel ''error scanning namespace'' [(''ns'', ns_Name ns)]])
            (scan_namespaces env rest (errors_Join [err, Some e])))"

definition ScanAllNamespaces :: "env \<Rightarrow> error option outcome" where
  "ScanAllNamespaces env =
     (case GetAuditedNamespaces env of (nsList, err) \<Rightarrow>
      emit ([Log InfoLevel ''all-namespaces scan started'' []]
            @ (if err \<noteq> None then [Log ErrorLevel ''error scanning all namespaces'' []] else []))
       (case scan_namespaces env nsList err of
          (evs, Inl pn) \<Rightarrow> (evs, Inl pn)
        | (evs, Inr err') \<Rightarrow>
            (evs @ [Log InfoLevel ''all-namespaces scan finished'' []], Inr err')))"

section \<open>Reading the events\<close>

text \<open>The requests posted to policy servers, as (URL, payload), in order.\<close>

fun requests :: "event list \<Rightarrow> (string \<times> string) list" where
  "requests [] = []"
| "requests (PolicyServerRequest url payload # evs) = (url, payload) # requests evs"
| "requests (e # evs) = requests evs"

text \<open>The namespaced reports handed to the store, in order.\<close>

fun stored_reports :: "event list \<Rightarrow> PolicyReport list" where
  "stored_reports [] = []"
| "stored_reports (StorePolicyReport r # evs) = r # stored_reports evs"
| "stored_reports (e # evs) = stored_reports evs"

fun is_log :: "event \<Rightarrow> bool" where
  "is_log (Log l msg fs) = True"
| "is_log e = False"

text \<open>Everything but the log lines: the requests and the reports stored.\<close>

definition effects :: "event list \<Rightarrow> event list" where
  "effects evs = filter (\<lambda>e. \<not> is_log e) evs"

text \<open>The policies of a list that \<open>policyMatches\<close> accepts for a resource.\<close>

definition matching :: "env \<Rightarrow> Unstructured \<Rightarrow> policies_Policy list \<Rightarrow> policies_Policy list" where
  "matching env resource policies =
     filter (\<lambda>p. fst (snd (policyMatches env (Policy p) resource))) policies"

text \<open>The unstructured objects a pager yields, and all those listed for the types of a scan.\<close>

fun unstructured_items :: "(error + runtime_Object) list \<Rightarrow> Unstructured list" where
  "unstructured_items [] = []"
| "unstructured_items (Inr (UnstructuredObject resource) # rest) = resource # unstructured_items rest"
| "unstructured_items (x # rest) = unstructured_items rest"

definition listed_resources ::
  "env \<Rightarrow> string \<Rightarrow> (GroupVersionResource \<times> policies_Policy list) list \<Rightarrow> Unstructured list" where
  "listed_resources env nsName gvrs =
     concat (map (\<lambda>(gvr, policies).
                    case GetResources env gvr nsName of
                      Inl err \<Rightarrow> []
                    | Inr pager \<Rightarrow> unstructured_items pager) gvrs)"

text \<open>
  The error \<open>ScanNamespace\<close> returns for a namespace (nil when it returns none), and the events
  of one turn of the loop of \<open>ScanAllNamespaces\<close>: those of the namespace's scan, then the
  line logged when it returned an error.
\<close>

definition namespace_error :: "env \<Rightarrow> Namespace_item \<Rightarrow> error option" where
  "namespace_error env ns =
     (case snd (ScanNamespace env (ns_Name ns)) of Inr (Some e) \<Rightarrow> Some e | _ \<Rightarrow> None)"

definition namespace_events :: "env \<Rightarrow> Namespace_item \<Rightarrow> event list" where
  "namespace_events env ns =
     fst (ScanNamespace env (ns_Name ns))
     @ (if namespace_error env ns \<noteq> None
        then [Log ErrorLevel ''error scanning namespace'' [(''ns'', ns_Name ns)]] else [])"

text \<open>The events of \<open>Save\<close>: reads, updates, and whether every update follows its read.\<close>

fun is_get :: "store_event \<Rightarrow> bool" where
  "is_get (ClientGet key got) = True"
| "is_get e = False"

fun is_update :: "store_event \<Rightarrow> bool" where
  "is_update (ClientUpdate r res) = True"
| "is_update e = False"

text \<open>
  Every \<open>Update\<close> comes right after a \<open>Get\<close> of the report's namespaced name that found an
  object, and writes the report with the \<open>ResourceVersion\<close> of that object.
\<close>

fun updates_use_token :: "PolicyReport \<Rightarrow> store_event list \<Rightarrow> bool" where
  "updates_use_token report [] = True"
| "updates_use_token report (ClientGet key (Inr obj) # ClientUpdate r res # evs) =
     (key = (Namespace report, Name report)
      \<and> r = report\<lparr>ResourceVersion := ResourceVersion obj\<rparr>
      \<and> updates_use_token report evs)"
| "updates_use_token report (ClientUpdate r res # evs) = False"
| "updates_use_token report (e # evs) = updates_use_token report evs"

definition starts_with_update :: "store_event list \<Rightarrow> bool" where
  "starts_with_update evs = (case evs of [] \<Rightarrow> False | e # rest \<Rightarrow> is_update e)"

section \<open>Concrete runs\<close>

text \<open>
  A cluster to run the scanner on. Its selector conversion follows Kubernetes: the match labels
  must be present with their values, a requirement has one of the operators \<open>In\<close>, \<open>NotIn\<close>
  (with values) or \<open>Exists\<close>, \<open>DoesNotExist\<close> (without), and any other requirement is an
  error.
\<close>

definition requirement_matches :: "string \<times> string \<times> string list \<Rightarrow> (string \<rightharpoonup> string) \<Rightarrow> bool" where
  "requirement_matches req labels =
     (case req of (key, operator, vals) \<Rightarrow>
        if operator = ''In'' then (case labels key of None \<Rightarrow> False | Some v \<Rightarrow> List.member vals v)
        else if operator = ''NotIn'' then (case labels key of None \<Rightarrow> True | Some v \<Rightarrow> \<not> List.member vals v)
        else if operator = ''Exists'' then labels key \<noteq> None
        else labels key = None)"

definition requirement_valid :: "string \<times> string \<times> string list \<Rightarrow> bool" where
  "requirement_valid req =
     (case req of (key, operator, vals) \<Rightarrow>
        if operator = ''In'' \<or> operator = ''NotIn'' then vals \<noteq> []
        else if operator = ''Exists'' \<or> operator = ''DoesNotExist'' then vals = []
        else False)"

definition k8s_LabelSelectorAsSelector :: "LabelSelector \<Rightarrow> error + ((string \<rightharpoonup> string) \<Rightarrow> bool)" where
  "k8s_LabelSelectorAsSelector sel =
     (if list_all requirement_valid (MatchExpressions sel)
      then Inr (\<lambda>labels. list_all (\<lambda>(k, v). labels k = Some v) (MatchLabels sel)
                        \<and> list_all (\<lambda>req. requirement_matches req labels) (MatchExpressions sel))
      else Inl (New ''invalid label selector requirement''))"

text \<open>A pod of a namespace, labelled \<open>app=web\<close>.\<close>

definition pod :: "string \<Rightarrow> string \<Rightarrow> Unstructured" where
  "pod nsName name =
     \<lparr>GetUID = name, GetNamespace = nsName, GetName = name,
      GetLabels = [''app'' \<mapsto> ''web'']\<rparr>"

text \<open>Three policies: without selector, selecting \<open>tier=db\<close>, and with a malformed selector.\<close>

definition policy_no_selector :: policies_Policy where
  "policy_no_selector =
     \<lparr>Policy = \<lparr>policy_GetName = ''no-selector'', GetObjectSelector = None\<rparr>,
      PolicyServer = ''https://policy-server/audit/no-selector''\<rparr>"

definition selector_db :: LabelSelector where
  "selector_db = \<lparr>MatchLabels = [(''tier'', ''db'')], MatchExpressions = []\<rparr>"

definition policy_db :: policies_Policy where
  "policy_db =
     \<lparr>Policy = \<lparr>policy_GetName = ''only-db'', GetObjectSelector = Some selector_db\<rparr>,
      PolicyServer = ''https://policy-server/audit/only-db''\<rparr>"

definition selector_malformed :: LabelSelector where
  "selector_malformed = \<lparr>MatchLabels = [], MatchExpressions = [(''app'', ''Near'', [])]\<rparr>"

definition policy_malformed :: policies_Policy where
  "policy_malformed =
     \<lparr>Policy = \<lparr>policy_GetName = ''malformed'', GetObjectSelector = Some selector_malformed\<rparr>,
      PolicyServer = ''https://policy-server/audit/malformed''\<rparr>"

text \<open>
  Scenario A of the specification, in every namespace: one policy without selector bound to
  pods, two pods, a policy server that allows everything. The namespace \<open>bad-ns\<close> does not
  exist. The payload of a request stands for its JSON: the name of the object.
\<close>

definition scenario_env :: env where
  "scenario_env =
     \<lparr>LabelSelectorAsSelector = k8s_LabelSelectorAsSelector,
      json_Marshal = (\<lambda>review. case Request review of None \<Rightarrow> Inr [] | Some r \<Rightarrow> Inr (request_Name r)),
      httpClient_Do = (\<lambda>url payload. Inr \<lparr>StatusCode = 200, Body = Inr payload\<rparr>),
      json_Unmarshal = (\<lambda>body. Inr \<lparr>Request = None, Response = Some \<lparr>UID = body, Allowed = True\<rparr>\<rparr>),
      k8s_GetNamespace = (\<lambda>ns. if ns = ''bad-ns'' then Some (Status StatusReasonNotFound) else None),
      GetPoliciesForANamespace =
        (\<lambda>ns. Inr \<lparr>PoliciesByGVR = [(GVR [] ''v1'' ''pods'', [policy_no_selector])],
                    PolicyNum = 1, SkippedNum = 0\<rparr>),
      GetClusterWidePolicies = Inr \<lparr>PoliciesByGVR = [], PolicyNum = 0, SkippedNum = 0\<rparr>,
      GetResources = (\<lambda>gvr ns. Inr [Inr (UnstructuredObject (pod ns ''pod1'')),
                                     Inr (UnstructuredObject (pod ns ''pod2''))]),
      GetAuditedNamespaces = ([\<lparr>ns_Name = ''ns1''\<rparr>, \<lparr>ns_Name = ''bad-ns''\<rparr>], None),
      CreateOrPatchPolicyReport = (\<lambda>r. None),
      CreateOrPatchClusterPolicyReport = (\<lambda>r. None)\<rparr>"

text \<open>The same cluster when every request to a policy server times out.\<close>

definition timeout_env :: env where
  "timeout_env =
     scenario_env\<lparr>httpClient_Do := (\<lambda>url payload. Inl (New ''context deadline exceeded''))\<rparr>"

text \<open>The same cluster when the admission review cannot be serialised.\<close>

definition marshal_error_env :: env where
  "marshal_error_env =
     scenario_env\<lparr>json_Marshal := (\<lambda>review. Inl (New ''json: unsupported value''))\<rparr>"

text \<open>The same cluster when listing the namespaces fails and yields no namespace.\<close>

definition listing_error_env :: env where
  "listing_error_env =
     scenario_env\<lparr>GetAuditedNamespaces := ([], Some (New ''cannot list namespaces''))\<rparr>"

text \<open>
  Two repositories for \<open>Save\<close>. In the first the report exists and other writers race: the
  state lists the versions they will still write, a read shows the next of them, and an
  update meets a conflict while any is left. In the second nothing exists; the state counts
  the objects created.
\<close>

definition racing_client :: "string list client" where
  "racing_client =
     \<lparr>client_Get = (\<lambda>key vs. (Inr \<lparr>Namespace = fst key, Name = snd key,
                                        ResourceVersion = (case vs of [] \<Rightarrow> ''final'' | v # rest \<Rightarrow> v),
                                        Results = []\<rparr>, vs)),
      client_Create = (\<lambda>report vs. (None, vs)),
      client_Update = (\<lambda>report vs. case vs of [] \<Rightarrow> (None, [])
                                      | v # rest \<Rightarrow> (Some (Status StatusReasonConflict), rest))\<rparr>"

text \<open>The attempts of \<open>Save\<close> on the first repository while six writers race.\<close>

definition racing_events :: "store_event list" where
  "racing_events =
     [ClientGet (''ns1'', ''pod1'') (Inr \<lparr>Namespace = ''ns1'', Name = ''pod1'', ResourceVersion = ''1'', Results = []\<rparr>),
      ClientUpdate \<lparr>Namespace = ''ns1'', Name = ''pod1'', ResourceVersion = ''1'', Results = []\<rparr> (Some (Status StatusReasonConflict)),
      ClientGet (''ns1'', ''pod1'') (Inr \<lparr>Namespace = ''ns1'', Name = ''pod1'', ResourceVersion = ''2'', Results = []\<rparr>),
      ClientUpdate \<lparr>Namespace = ''ns1'', Name = ''pod1'', ResourceVersion = ''2'', Results = []\<rparr> (Some (Status StatusReasonConflict)),
      ClientGet (''ns1'', ''pod1'') (Inr \<lparr>Namespace = ''ns1'', Name = ''pod1'', ResourceVersion = ''3'', Results = []\<rparr>),
      ClientUpdate \<lparr>Namespace = ''ns1'', Name = ''pod1'', ResourceVersion = ''3'', Results = []\<rparr> (Some (Status StatusReasonConflict)),
      ClientGet (''ns1'', ''pod1'') (Inr \<lparr>Namespace = ''ns1'', Name = ''pod1'', ResourceVersion = ''4'', Results = []\<rparr>),
      ClientUpdate \<lparr>Namespace = ''ns1'', Name = ''pod1'', ResourceVersion = ''4'', Results = []\<rparr> (Some (Status StatusReasonConflict)),
      ClientGet (''ns1'', ''pod1'') (Inr \<lparr>Namespace = ''ns1'', Name = ''pod1'', ResourceVersion = ''5'', Results = []\<rparr>),
      ClientUpdate \<lparr>Namespace = ''ns1'', Name = ''pod1'', ResourceVersion = ''5'', Results = []\<rparr> (Some (Status StatusReasonConflict))]"

definition empty_client :: "nat client" where
  "empty_client =
     \<lparr>client_Get = (\<lambda>key c. (Inl (Status StatusReasonNotFound), c)),
      client_Create = (\<lambda>report c. (None, Suc c)),
      client_Update = (\<lambda>report c. (Some (Status StatusReasonNotFound), c))\<rparr>"

definition report_pod1 :: PolicyReport where
  "report_pod1 = \<lparr>Namespace = ''ns1'', Name = ''pod1'', ResourceVersion = [], Results = []\<rparr>"

section \<open>Properties of the report cache\<close>

text \<open>
  C10: \<open>AddPolicyReport\<close> and \<open>UpdatePolicyReport\<close> are the same operation. On every store
  and every namespaced report they return nil and leave the same store, in which the report
  is the entry of its namespace (whatever was there before) and every other namespace is
  untouched.
\<close>

theorem AddPolicyReport_eq_UpdatePolicyReport:
  "AddPolicyReport s report = UpdatePolicyReport s report
   \<and> fst (AddPolicyReport s report) = None
   \<and> fst (UpdatePolicyReport s report) = None
   \<and> namespacedPolicyReports (snd (UpdatePolicyReport s report)) =
       (namespacedPolicyReports s)(Namespace report \<mapsto> report)
   \<and> clusterPolicyReport (snd (UpdatePolicyReport s report)) = clusterPolicyReport s"
  by (simp add: AddPolicyReport_def UpdatePolicyReport_def)

text \<open>
  C9, counterexample: the cluster-wide scope never answers not found. On a new store, into
  which no cluster report was ever put, \<open>GetClusterPolicyReport\<close> returns the initial report
  and a nil error.
\<close>

theorem GetClusterPolicyReport_never_not_found:
  "GetClusterPolicyReport MockNewPolicyReportStore = (NewClusterPolicyReport ''clusterwide'', None)"
  by (simp add: GetClusterPolicyReport_def MockNewPolicyReportStore_def)

text \<open>
  C9, as amended: for a namespace without cached report \<open>GetPolicyReport\<close> returns the error
  "report not found"; after a report is put (added or updated) it returns exactly that report
  for the report's namespace, and a put under another namespace changes nothing for this one.
  \<open>GetClusterPolicyReport\<close> returns the cluster report last put and never an error; on a new
  store it returns the initial report named "clusterwide".
\<close>

theorem Get_returns_cached:
  "(namespacedPolicyReports s ns = None \<longrightarrow>
      GetPolicyReport s ns = (zero_PolicyReport, Some (New ''report not found'')))
   \<and> GetPolicyReport (snd (AddPolicyReport s report)) (Namespace report) = (report, None)
   \<and> GetPolicyReport (snd (UpdatePolicyReport s report)) (Namespace report) = (report, None)
   \<and> (ns \<noteq> Namespace report \<longrightarrow>
        GetPolicyReport (snd (AddPolicyReport s report)) ns = GetPolicyReport s ns
        \<and> GetPolicyReport (snd (UpdatePolicyReport s report)) ns = GetPolicyReport s ns)
   \<and> GetClusterPolicyReport (snd (AddClusterPolicyReport s creport)) = (creport, None)
   \<and> GetClusterPolicyReport (snd (UpdateClusterPolicyReport s creport)) = (creport, None)
   \<and> snd (GetClusterPolicyReport s) = None
   \<and> GetPolicyReport MockNewPolicyReportStore ns = (zero_PolicyReport, Some (New ''report not found''))"
  by (simp add: GetPolicyReport_def AddPolicyReport_def UpdatePolicyReport_def
      GetClusterPolicyReport_def AddClusterPolicyReport_def UpdateClusterPolicyReport_def
      MockNewPolicyReportStore_def)

theorem Get_returns_cached_witness:
  "GetPolicyReport MockNewPolicyReportStore ''ns1'' = (zero_PolicyReport, Some (New ''report not found''))
   \<and> GetPolicyReport (snd (AddPolicyReport MockNewPolicyReportStore report_pod1)) ''ns1'' = (report_pod1, None)
   \<and> GetPolicyReport (snd (AddPolicyReport MockNewPolicyReportStore report_pod1)) ''ns2''
       = (zero_PolicyReport, Some (New ''report not found''))"
proof -
  have e: "namespacedPolicyReports MockNewPolicyReportStore ''ns1'' = None"
    by (simp add: MockNewPolicyReportStore_def)
  have n: "Namespace report_pod1 = ''ns1''" "''ns2'' \<noteq> Namespace report_pod1"
    by (simp_all add: report_pod1_def)
  from Get_returns_cached [of MockNewPolicyReportStore "''ns1''" report_pod1] e n
  have a: "GetPolicyReport MockNewPolicyReportStore ''ns1'' = (zero_PolicyReport, Some (New ''report not found''))"
    "GetPolicyReport (snd (AddPolicyReport MockNewPolicyReportStore report_pod1)) ''ns1'' = (report_pod1, None)"
    by simp_all
  from Get_returns_cached [of MockNewPolicyReportStore "''ns2''" report_pod1] n
  have "GetPolicyReport (snd (AddPolicyReport MockNewPolicyReportStore report_pod1)) ''ns2''
          = (zero_PolicyReport, Some (New ''report not found''))"
    by simp
  with a show ?thesis by simp
qed

section \<open>Properties of Save\<close>

lemma update_attempt_report:
  assumes "update_attempt cl (rp, c) = ((evs, err), (rp', c'))"
  shows "rp'\<lparr>ResourceVersion := v\<rparr> = rp\<lparr>ResourceVersion := v\<rparr>"
    and "Namespace rp' = Namespace rp" and "Name rp' = Name rp"
  using assms
  by (auto simp: update_attempt_def split: prod.splits sum.splits if_splits)

lemma update_attempt_counts:
  assumes "update_attempt cl (rp, c) = ((evs, err), s')"
  shows "length (filter is_get evs) = 1" and "length (filter is_update evs) \<le> 1"
  using assms
  by (auto simp: update_attempt_def split: prod.splits sum.splits if_splits)

lemma update_attempt_token:
  assumes "update_attempt cl (rp, c) = ((evs, err), s')" and "\<not> starts_with_update tail"
  shows "updates_use_token rp (evs @ tail) = updates_use_token rp tail"
  using assms
  by (cases tail; cases "hd tail")
     (auto simp: update_attempt_def starts_with_update_def split: prod.splits sum.splits if_splits)

lemma update_attempt_starts:
  "update_attempt cl (rp, c) = ((evs, err), s') \<Longrightarrow> \<not> starts_with_update (evs @ tail)"
  by (auto simp: update_attempt_def starts_with_update_def split: prod.splits sum.splits if_splits)

lemma updates_use_token_same:
  assumes "\<And>v. rp'\<lparr>ResourceVersion := v\<rparr> = rp\<lparr>ResourceVersion := v\<rparr>"
      and "Namespace rp' = Namespace rp" and "Name rp' = Name rp"
  shows "updates_use_token rp' evs = updates_use_token rp evs"
  using assms
  by (induction rp evs rule: updates_use_token.induct) simp_all

text \<open>
  The retry loop: at most \<open>n\<close> attempts, each with one read and at most one update; it ends
  in a conflict only when all \<open>n\<close> attempts were made; every update follows its read.
\<close>

lemma retry_OnConflict_shape:
  assumes "retry_OnConflict n (update_attempt cl) lastErr (rp, c) = ((evs, err), s')"
  shows "length (filter is_get evs) \<le> n \<and> length (filter is_update evs) \<le> n
         \<and> (IsConflict err \<longrightarrow> length (filter is_get evs) = n)
         \<and> (\<not> starts_with_update tail \<longrightarrow>
               \<not> starts_with_update (evs @ tail)
               \<and> updates_use_token rp (evs @ tail) = updates_use_token rp tail)"
  using assms
proof (induction n arbitrary: lastErr rp c evs err)
  case 0
  then show ?case by simp
next
  case (Suc n)
  obtain evs1 err1 rp1 c1 where at: "update_attempt cl (rp, c) = ((evs1, err1), (rp1, c1))"
    by (cases "update_attempt cl (rp, c)") auto
  note rpt = update_attempt_report[OF at] and cnt = update_attempt_counts[OF at]
    and tok = update_attempt_token[OF at] and st = update_attempt_starts[OF at]
  show ?case
  proof (cases "err1 \<noteq> None \<and> IsConflict err1")
    case False
    with Suc.prems at have "evs = evs1" "err = err1"
      by (auto split: if_splits)
    with cnt tok[of tail] st[of tail] False show ?thesis
      by (auto simp: IsConflict_def)
  next
    case True
    obtain evs2 where rec: "retry_OnConflict n (update_attempt cl) err1 (rp1, c1) = ((evs2, err), s')"
      and evs: "evs = evs1 @ evs2"
      using Suc.prems at True
      by (cases "retry_OnConflict n (update_attempt cl) err1 (rp1, c1)") (auto split: if_splits)
    note ih = Suc.IH[OF rec]
    have same: "updates_use_token rp1 xs = updates_use_token rp xs" for xs
      using rpt by (intro updates_use_token_same) auto
    from ih cnt tok[of "evs2 @ tail"] st[of "evs2 @ tail"] evs same show ?thesis
      by auto
  qed
qed

lemma retry_first_attempt:
  assumes "client_Get cl (Namespace rp, Name rp) c = (Inr obj, c2)"
      and "retry_OnConflict (Suc n) (update_attempt cl) lastErr (rp, c) = ((revs, err), s')"
  shows "\<exists>res rest. revs = ClientGet (Namespace rp, Name rp) (Inr obj)
              # ClientUpdate (rp\<lparr>ResourceVersion := ResourceVersion obj\<rparr>) res # rest"
proof -
  obtain res c3 where up: "client_Update cl (rp\<lparr>ResourceVersion := ResourceVersion obj\<rparr>) c2 = (res, c3)"
    by (cases "client_Update cl (rp\<lparr>ResourceVersion := ResourceVersion obj\<rparr>) c2")
  with assms(1) have at: "update_attempt cl (rp, c) =
     (([ClientGet (Namespace rp, Name rp) (Inr obj),
        ClientUpdate (rp\<lparr>ResourceVersion := ResourceVersion obj\<rparr>) res], res),
      (rp\<lparr>ResourceVersion := ResourceVersion obj\<rparr>, c3))"
    by (simp add: update_attempt_def)
  from assms(2) show ?thesis
    unfolding retry_OnConflict.simps at
    by (auto split: if_splits prod.splits)
qed

lemma Save_created:
  assumes "client_Get cl (Namespace report, Name report) c = (got, c1)"
      and "IsNotFound (get_error got)"
  shows "\<exists>cerr c2. client_Create cl report c1 = (cerr, c2)
           \<and> fst (fst (Save cl report c)) =
               [ClientGet (Namespace report, Name report) got,
                StoreLog InfoLevel ''creating policy report...'',
                ClientCreate report cerr]
           \<and> (snd (fst (Save cl report c)) = None \<longleftrightarrow> cerr = None)"
  using assms
  by (cases "client_Create cl report c1") (auto simp: Save_def split: option.splits)

lemma Save_updated:
  assumes "client_Get cl (Namespace report, Name report) c = (got, c1)"
      and "\<not> IsNotFound (get_error got)"
      and "RetryOnConflict DefaultRetry_Steps (update_attempt cl) (report, c1) = ((revs, retryErr), s')"
  shows "snd (fst (Save cl report c)) = None
         \<and> fst (fst (Save cl report c)) =
             [ClientGet (Namespace report, Name report) got,
              StoreLog InfoLevel ''updating policy report...'']
             @ revs
             @ (if retryErr \<noteq> None then [StoreLog ErrorLevel ''PolicyReport update failed''] else [])
             @ [StoreLog InfoLevel ''updated PolicyReport'']
         \<and> updates_use_token report (fst (fst (Save cl report c)))
         \<and> length (filter is_get revs) \<le> DefaultRetry_Steps
         \<and> length (filter is_update revs) \<le> DefaultRetry_Steps
         \<and> (IsConflict retryErr \<longrightarrow> length (filter is_get revs) = DefaultRetry_Steps)
         \<and> (\<forall>obj c2. client_Get cl (Namespace report, Name report) c1 = (Inr obj, c2) \<longrightarrow>
               (\<exists>res rest. revs = ClientGet (Namespace report, Name report) (Inr obj)
                  # ClientUpdate (report\<lparr>ResourceVersion := ResourceVersion obj\<rparr>) res # rest))"
proof -
  let ?tail = "(if retryErr \<noteq> None then [StoreLog ErrorLevel ''PolicyReport update failed''] else [])
               @ [StoreLog InfoLevel ''updated PolicyReport'']"
  have ev: "fst (fst (Save cl report c)) =
              [ClientGet (Namespace report, Name report) got,
               StoreLog InfoLevel ''updating policy report...''] @ revs @ ?tail"
    and er: "snd (fst (Save cl report c)) = None"
    using assms by (simp_all add: Save_def)
  have nt: "\<not> starts_with_update ?tail" by (simp add: starts_with_update_def)
  from assms(3) have r:
    "retry_OnConflict DefaultRetry_Steps (update_attempt cl) None (report, c1) = ((revs, retryErr), s')"
    by (simp add: RetryOnConflict_def)
  note sh = retry_OnConflict_shape[OF r, of ?tail]
  have "updates_use_token report ?tail" by simp
  with sh nt have "updates_use_token report (revs @ ?tail)" by simp
  then have tok: "updates_use_token report (fst (fst (Save cl report c)))"
    by (cases got) (simp_all add: ev)
  have first: "\<exists>res rest. revs = ClientGet (Namespace report, Name report) (Inr obj)
              # ClientUpdate (report\<lparr>ResourceVersion := ResourceVersion obj\<rparr>) res # rest"
    if g: "client_Get cl (Namespace report, Name report) c1 = (Inr obj, c2)" for obj c2
  proof -
    have "DefaultRetry_Steps = Suc 4" by (simp add: DefaultRetry_Steps_def)
    with r have "retry_OnConflict (Suc 4) (update_attempt cl) None (report, c1) = ((revs, retryErr), s')"
      by simp
    from retry_first_attempt[OF g this] show ?thesis .
  qed
  from er ev tok sh first show ?thesis by blast
qed

text \<open>
  C4: \<open>Save\<close> first reads the persisted object. When the read says not found, the report is
  created (one \<open>Create\<close> call, whose error is the only one \<open>Save\<close> returns). Otherwise
  \<open>Save\<close> returns nil whatever happens: it runs the retry loop, in which every \<open>Update\<close> comes
  right after a fresh read and writes the report with the \<open>ResourceVersion\<close> just read (the
  first attempt does so whenever its read finds the object), at most \<open>DefaultRetry_Steps\<close>
  attempts are made, the loop ends in a conflict only after all of them, and a loop that ends
  in an error only adds the line "PolicyReport update failed" to the log.
\<close>

theorem Save_reconciles:
  assumes "client_Get cl (Namespace report, Name report) c = (got, c1)"
      and "RetryOnConflict DefaultRetry_Steps (update_attempt cl) (report, c1) = ((revs, retryErr), s')"
  shows "if IsNotFound (get_error got)
         then (\<exists>cerr c2. client_Create cl report c1 = (cerr, c2)
                 \<and> fst (fst (Save cl report c)) =
                     [ClientGet (Namespace report, Name report) got,
                      StoreLog InfoLevel ''creating policy report...'',
                      ClientCreate report cerr]
                 \<and> (snd (fst (Save cl report c)) = None \<longleftrightarrow> cerr = None))
         else snd (fst (Save cl report c)) = None
           \<and> fst (fst (Save cl report c)) =
               [ClientGet (Namespace report, Name report) got,
                StoreLog InfoLevel ''updating policy report...'']
               @ revs
               @ (if retryErr \<noteq> None then [StoreLog ErrorLevel ''PolicyReport update failed''] else [])
               @ [StoreLog InfoLevel ''updated PolicyReport'']
           \<and> updates_use_token report (fst (fst (Save cl report c)))
           \<and> length (filter is_get revs) \<le> DefaultRetry_Steps
           \<and> length (filter is_update revs) \<le> DefaultRetry_Steps
           \<and> (IsConflict retryErr \<longrightarrow> length (filter is_get revs) = DefaultRetry_Steps)
           \<and> (\<forall>obj c2. client_Get cl (Namespace report, Name report) c1 = (Inr obj, c2) \<longrightarrow>
                 (\<exists>res rest. revs = ClientGet (Namespace report, Name report) (Inr obj)
                    # ClientUpdate (report\<lparr>ResourceVersion := ResourceVersion obj\<rparr>) res # rest))"
proof (cases "IsNotFound (get_error got)")
  case True
  show ?thesis
    unfolding if_P[OF True] by (rule Save_created[OF assms(1) True])
next
  case False
  show ?thesis
    unfolding if_not_P[OF False] by (rule Save_updated[OF assms(1) False assms(2)])
qed

lemma racing_attempt:
  "update_attempt racing_client (\<lparr>Namespace = ns, Name = n, ResourceVersion = rv, Results = rs\<rparr>, v # vs) =
     (([ClientGet (ns, n) (Inr \<lparr>Namespace = ns, Name = n, ResourceVersion = v, Results = []\<rparr>),
        ClientUpdate \<lparr>Namespace = ns, Name = n, ResourceVersion = v, Results = rs\<rparr>
          (Some (Status StatusReasonConflict))],
       Some (Status StatusReasonConflict)),
      (\<lparr>Namespace = ns, Name = n, ResourceVersion = v, Results = rs\<rparr>, vs))"
  by (simp add: update_attempt_def racing_client_def)

lemma IsConflict_Status: "IsConflict (Some (Status StatusReasonConflict))"
  by (simp add: IsConflict_def)

lemma racing_retry:
  "RetryOnConflict DefaultRetry_Steps (update_attempt racing_client)
     (report_pod1, [''1'', ''2'', ''3'', ''4'', ''5'', ''6'']) =
   ((racing_events,
     Some (Status StatusReasonConflict)),
    (\<lparr>Namespace = ''ns1'', Name = ''pod1'', ResourceVersion = ''5'', Results = []\<rparr>, [''6'']))"
  by (simp add: RetryOnConflict_def DefaultRetry_Steps_def eval_nat_numeral report_pod1_def
      racing_attempt IsConflict_Status racing_events_def)

theorem Save_reconciles_witness:
  "snd (fst (Save racing_client report_pod1 [''1'', ''2'', ''3'', ''4'', ''5'', ''6''])) = None
   \<and> length (filter is_update (fst (fst (Save racing_client report_pod1 [''1'', ''2'', ''3'', ''4'', ''5'', ''6''])))) = 5
   \<and> updates_use_token report_pod1 (fst (fst (Save racing_client report_pod1 [''1'', ''2'', ''3'', ''4'', ''5'', ''6''])))
   \<and> StoreLog ErrorLevel ''PolicyReport update failed''
        \<in> set (fst (fst (Save racing_client report_pod1 [''1'', ''2'', ''3'', ''4'', ''5'', ''6''])))"
proof -
  have g: "client_Get racing_client (Namespace report_pod1, Name report_pod1) [''1'', ''2'', ''3'', ''4'', ''5'', ''6'']
           = (Inr \<lparr>Namespace = ''ns1'', Name = ''pod1'', ResourceVersion = ''1'', Results = []\<rparr>,
              [''1'', ''2'', ''3'', ''4'', ''5'', ''6''])"
    by (simp add: racing_client_def report_pod1_def)
  have nf: "\<not> IsNotFound (get_error (Inr \<lparr>Namespace = ''ns1'', Name = ''pod1'', ResourceVersion = ''1'', Results = []\<rparr>))"
    by (simp add: IsNotFound_def get_error_def)
  note th = Save_reconciles [OF g racing_retry, unfolded if_not_P[OF nf]]
  from th have a: "snd (fst (Save racing_client report_pod1 [''1'', ''2'', ''3'', ''4'', ''5'', ''6''])) = None"
    by blast
  from th have b: "updates_use_token report_pod1
      (fst (fst (Save racing_client report_pod1 [''1'', ''2'', ''3'', ''4'', ''5'', ''6''])))"
    by blast
  from th have e: "fst (fst (Save racing_client report_pod1 [''1'', ''2'', ''3'', ''4'', ''5'', ''6''])) =
      [ClientGet (Namespace report_pod1, Name report_pod1)
         (Inr \<lparr>Namespace = ''ns1'', Name = ''pod1'', ResourceVersion = ''1'', Results = []\<rparr>),
       StoreLog InfoLevel ''updating policy report...'']
      @ racing_events
      @ (if Some (Status StatusReasonConflict) \<noteq> None
         then [StoreLog ErrorLevel ''PolicyReport update failed''] else [])
      @ [StoreLog InfoLevel ''updated PolicyReport'']"
    by blast
  have c: "length (filter is_update (fst (fst (Save racing_client report_pod1 [''1'', ''2'', ''3'', ''4'', ''5'', ''6''])))) = 5"
    unfolding e by (simp add: racing_events_def)
  have d: "StoreLog ErrorLevel ''PolicyReport update failed''
        \<in> set (fst (fst (Save racing_client report_pod1 [''1'', ''2'', ''3'', ''4'', ''5'', ''6''])))"
    unfolding e by simp
  from a b c d show ?thesis by simp
qed

section \<open>Properties of policyMatches and of the loop over the policies\<close>

lemma emit_Nil: "emit [] m = m"
  by (simp add: emit_def)

lemma requests_append: "requests (xs @ ys) = requests xs @ requests ys"
  by (induction xs rule: requests.induct) simp_all

lemma stored_reports_append: "stored_reports (xs @ ys) = stored_reports xs @ stored_reports ys"
  by (induction xs rule: stored_reports.induct) simp_all

lemma audit_policies_append:
  "audit_policies env add resource (ps @ qs) rep =
     (case audit_policies env add resource ps rep of
        (evs, Inl pn) \<Rightarrow> (evs, Inl pn)
      | (evs, Inr rep') \<Rightarrow> emit evs (audit_policies env add resource qs rep'))"
proof (induction ps arbitrary: rep)
  case Nil
  show ?case by (simp add: emit_def)
next
  case (Cons p ps)
  show ?case
    by (simp add: Cons.IH emit_def split: prod.splits sum.splits)
qed

text \<open>A policy whose turn only logs and keeps the report can be left out of the list.\<close>

lemma audit_policies_skip:
  assumes "\<And>rep. audit_policy env add resource p rep = (logs, Inr rep)"
  shows "snd (audit_policies env add resource (ps @ p # qs) rep) =
           snd (audit_policies env add resource (ps @ qs) rep)"
    and "logs = [] \<Longrightarrow> fst (audit_policies env add resource (ps @ p # qs) rep) =
           fst (audit_policies env add resource (ps @ qs) rep)"
    and "list_all is_log logs \<Longrightarrow> effects (fst (audit_policies env add resource (ps @ p # qs) rep)) =
           effects (fst (audit_policies env add resource (ps @ qs) rep))"
  using assms
  by (auto simp: audit_policies_append emit_def effects_def list_all_iff filter_empty_conv
      split: prod.splits sum.splits)

lemma auditResource_skip:
  assumes "\<And>rep. audit_policy env AddResultToPolicyReport resource p rep = (logs, Inr rep)"
      and "list_all is_log logs"
  shows "snd (auditResource env (ps @ p # qs) resource) = snd (auditResource env (ps @ qs) resource)"
    and "effects (fst (auditResource env (ps @ p # qs) resource)) =
           effects (fst (auditResource env (ps @ qs) resource))"
    and "logs = [] \<Longrightarrow> auditResource env (ps @ p # qs) resource = auditResource env (ps @ qs) resource"
proof -
  obtain evs1 r1 where a: "audit_policies env AddResultToPolicyReport resource (ps @ p # qs)
      (NewPolicyReport resource) = (evs1, r1)"
    by (cases "audit_policies env AddResultToPolicyReport resource (ps @ p # qs) (NewPolicyReport resource)")
  obtain evs2 r2 where b: "audit_policies env AddResultToPolicyReport resource (ps @ qs)
      (NewPolicyReport resource) = (evs2, r2)"
    by (cases "audit_policies env AddResultToPolicyReport resource (ps @ qs) (NewPolicyReport resource)")
  from audit_policies_skip[OF assms(1), of ps qs "NewPolicyReport resource"] a b assms(2)
  have r: "r1 = r2" and e: "effects evs1 = effects evs2" and f: "logs = [] \<Longrightarrow> evs1 = evs2"
    by simp_all
  show "snd (auditResource env (ps @ p # qs) resource) = snd (auditResource env (ps @ qs) resource)"
    using a b r by (cases r2) (simp_all add: auditResource_def)
  show "effects (fst (auditResource env (ps @ p # qs) resource)) =
           effects (fst (auditResource env (ps @ qs) resource))"
    using a b r e by (cases r2) (simp_all add: auditResource_def effects_def)
  show "auditResource env (ps @ p # qs) resource = auditResource env (ps @ qs) resource" if "logs = []"
    using a b r f[OF that] by (simp add: auditResource_def)
qed

lemma auditClusterResource_skip:
  assumes "\<And>rep. audit_policy env AddResultToClusterPolicyReport resource p rep = (logs, Inr rep)"
      and "list_all is_log logs"
  shows "snd (auditClusterResource env (ps @ p # qs) resource) = snd (auditClusterResource env (ps @ qs) resource)"
    and "effects (fst (auditClusterResource env (ps @ p # qs) resource)) =
           effects (fst (auditClusterResource env (ps @ qs) resource))"
    and "logs = [] \<Longrightarrow> auditClusterResource env (ps @ p # qs) resource = auditClusterResource env (ps @ qs) resource"
proof -
  obtain evs1 r1 where a: "audit_policies env AddResultToClusterPolicyReport resource (ps @ p # qs)
      (NewClusterPolicyReport_of resource) = (evs1, r1)"
    by (cases "audit_policies env AddResultToClusterPolicyReport resource (ps @ p # qs) (NewClusterPolicyReport_of resource)")
  obtain evs2 r2 where b: "audit_policies env AddResultToClusterPolicyReport resource (ps @ qs)
      (NewClusterPolicyReport_of resource) = (evs2, r2)"
    by (cases "audit_policies env AddResultToClusterPolicyReport resource (ps @ qs) (NewClusterPolicyReport_of resource)")
  from audit_policies_skip[OF assms(1), of ps qs "NewClusterPolicyReport_of resource"] a b assms(2)
  have r: "r1 = r2" and e: "effects evs1 = effects evs2" and f: "logs = [] \<Longrightarrow> evs1 = evs2"
    by simp_all
  show "snd (auditClusterResource env (ps @ p # qs) resource) = snd (auditClusterResource env (ps @ qs) resource)"
    using a b r by (cases r2) (simp_all add: auditClusterResource_def)
  show "effects (fst (auditClusterResource env (ps @ p # qs) resource)) =
           effects (fst (auditClusterResource env (ps @ qs) resource))"
    using a b r e by (cases r2) (simp_all add: auditClusterResource_def effects_def)
  show "auditClusterResource env (ps @ p # qs) resource = auditClusterResource env (ps @ qs) resource" if "logs = []"
    using a b r f[OF that] by (simp add: auditClusterResource_def)
qed

lemma audit_policy_excluded:
  "GetObjectSelector (Policy p) = Some sel \<Longrightarrow> LabelSelectorAsSelector env sel = Inr selector \<Longrightarrow>
   \<not> selector (GetLabels resource) \<Longrightarrow> audit_policy env add resource p rep = ([], Inr rep)"
  by (simp add: audit_policy_def policyMatches_def emit_def)

lemma audit_policy_malformed:
  "GetObjectSelector (Policy p) = Some sel \<Longrightarrow> LabelSelectorAsSelector env sel = Inl err \<Longrightarrow>
    audit_policy env add resource p rep =
     ([Log ErrorLevel ''error creating label selector from policy'' [],
       Log ErrorLevel ''error matching policy to resource'' []], Inr rep)"
  by (simp add: audit_policy_def policyMatches_def emit_def)

text \<open>
  C6: a policy without object selector matches every resource: \<open>policyMatches\<close> returns
  true and a nil error (and logs nothing).
\<close>

theorem policyMatches_no_selector:
  "GetObjectSelector policy = None \<Longrightarrow> policyMatches env policy resource = ([], True, None)"
  by (simp add: policyMatches_def)

theorem policyMatches_no_selector_witness:
  "GetObjectSelector (Policy policy_no_selector) = None
   \<and> policyMatches scenario_env (Policy policy_no_selector) (pod ''ns1'' ''pod1'') = ([], True, None)"
proof -
  have h: "GetObjectSelector (Policy policy_no_selector) = None"
    by (simp add: policy_no_selector_def)
  from policyMatches_no_selector [OF h] h show ?thesis by simp
qed

text \<open>
  C7: when the selector of a policy compiles and does not match the labels of a resource,
  \<open>policyMatches\<close> returns false and a nil error; the turn of the loop for this pair does
  nothing (no request to the policy server, no row), so that auditing the resource with the
  policy anywhere in the list is exactly auditing it without.
\<close>

theorem policyMatches_excluded:
  assumes "GetObjectSelector (Policy p) = Some sel"
      and "LabelSelectorAsSelector env sel = Inr selector"
      and "\<not> selector (GetLabels resource)"
  shows "policyMatches env (Policy p) resource = ([], False, None)
         \<and> audit_policy env add resource p rep = ([], Inr rep)
         \<and> auditResource env (ps @ p # qs) resource = auditResource env (ps @ qs) resource
         \<and> auditClusterResource env (ps @ p # qs) resource
             = auditClusterResource env (ps @ qs) resource"
proof -
  have m: "policyMatches env (Policy p) resource = ([], False, None)"
    using assms by (simp add: policyMatches_def)
  have s: "audit_policy env add' resource p rep' = ([], Inr rep')" for add' rep'
    by (rule audit_policy_excluded[OF assms])
  have l: "list_all is_log []" by simp
  from m s[of add rep] auditResource_skip(3)[OF s l refl] auditClusterResource_skip(3)[OF s l refl]
  show ?thesis by blast
qed

text \<open>
  C8: when the selector of a policy does not compile, \<open>policyMatches\<close> returns false with
  the error of the compilation; the turn of the loop for this pair logs the error twice and
  goes on with the report unchanged, so that the audit of the resource has the outcome, the
  requests and the stored report it has without the policy.
\<close>

theorem policyMatches_malformed:
  assumes "GetObjectSelector (Policy p) = Some sel"
      and "LabelSelectorAsSelector env sel = Inl err"
  shows "policyMatches env (Policy p) resource =
           ([Log ErrorLevel ''error creating label selector from policy'' []], False, Some err)
         \<and> audit_policy env add resource p rep =
             ([Log ErrorLevel ''error creating label selector from policy'' [],
               Log ErrorLevel ''error matching policy to resource'' []], Inr rep)
         \<and> snd (auditResource env (ps @ p # qs) resource) = snd (auditResource env (ps @ qs) resource)
         \<and> effects (fst (auditResource env (ps @ p # qs) resource))
             = effects (fst (auditResource env (ps @ qs) resource))
         \<and> snd (auditClusterResource env (ps @ p # qs) resource)
             = snd (auditClusterResource env (ps @ qs) resource)
         \<and> effects (fst (auditClusterResource env (ps @ p # qs) resource))
             = effects (fst (auditClusterResource env (ps @ qs) resource))"
proof -
  let ?logs = "[Log ErrorLevel ''error creating label selector from policy'' [],
                Log ErrorLevel ''error matching policy to resource'' []]"
  have m: "policyMatches env (Policy p) resource =
           ([Log ErrorLevel ''error creating label selector from policy'' []], False, Some err)"
    using assms by (simp add: policyMatches_def)
  have s: "audit_policy env add' resource p rep' = (?logs, Inr rep')" for add' rep'
    by (rule audit_policy_malformed[OF assms])
  have l: "list_all is_log ?logs" by simp
  from m s[of add rep] auditResource_skip(1,2)[OF s l] auditClusterResource_skip(1,2)[OF s l]
  show ?thesis by blast
qed

section \<open>The runs on the concrete cluster\<close>

lemma policyMatches_no_selector_run:
  "policyMatches env (Policy policy_no_selector) resource = ([], True, None)"
  by (simp add: policyMatches_def policy_no_selector_def)

lemma send_scenario:
  "sendAdmissionReviewToPolicyServer scenario_env url (newAdmissionReview (pod ns name)) =
     ([PolicyServerRequest url name],
      Some \<lparr>Request = None, Response = Some \<lparr>UID = name, Allowed = True\<rparr>\<rparr>, None)"
  by (simp add: sendAdmissionReviewToPolicyServer_def scenario_env_def newAdmissionReview_def pod_def)

lemma send_timeout:
  "sendAdmissionReviewToPolicyServer timeout_env url (newAdmissionReview (pod ns name)) =
     ([PolicyServerRequest url name], None, Some (New ''context deadline exceeded''))"
  by (simp add: sendAdmissionReviewToPolicyServer_def timeout_env_def scenario_env_def
      newAdmissionReview_def pod_def)

lemma audit_policy_scenario:
  "audit_policy scenario_env add (pod ns name) policy_no_selector rep =
     ([PolicyServerRequest ''https://policy-server/audit/no-selector'' name,
       Log DebugLevel ''audit review response''
         [(''uid'', name), (''policy'', ''no-selector''), (''resource'', name)]],
      Inr (add rep (Policy policy_no_selector) (Some \<lparr>UID = name, Allowed = True\<rparr>) False))"
  unfolding audit_policy_def Let_def policyMatches_no_selector_run send_scenario
  by (simp add: emit_def policy_no_selector_def pod_def)

lemma audit_policy_timeout:
  "audit_policy timeout_env add (pod ns name) policy_no_selector rep =
     ([PolicyServerRequest ''https://policy-server/audit/no-selector'' name,
       Log ErrorLevel ''error sending AdmissionReview to PolicyServer''
         [(''admissionRequest name'', name), (''policy'', ''no-selector''), (''resource'', name)]],
      Inl NilPointerDereference)"
  unfolding audit_policy_def Let_def policyMatches_no_selector_run send_timeout
  by (simp add: emit_def policy_no_selector_def pod_def newAdmissionReview_def)

lemma auditResource_scenario:
  "auditResource scenario_env [policy_no_selector] (pod ns name) =
     ([PolicyServerRequest ''https://policy-server/audit/no-selector'' name,
       Log DebugLevel ''audit review response''
         [(''uid'', name), (''policy'', ''no-selector''), (''resource'', name)],
       StorePolicyReport
         \<lparr>Namespace = ns, Name = name, ResourceVersion = [],
          Results = [\<lparr>result_policy = ''no-selector'', result_resource = name,
                      result_allowed = True, result_errored = False\<rparr>]\<rparr>],
      Inr ())"
  unfolding auditResource_def audit_policies.simps audit_policy_scenario
  by (simp add: emit_def AddResultToPolicyReport_def NewPolicyReport_def new_result_def
      policy_no_selector_def pod_def scenario_env_def)

lemma auditResource_timeout:
  "auditResource timeout_env [policy_no_selector] (pod ns name) =
     ([PolicyServerRequest ''https://policy-server/audit/no-selector'' name,
       Log ErrorLevel ''error sending AdmissionReview to PolicyServer''
         [(''admissionRequest name'', name), (''policy'', ''no-selector''), (''resource'', name)]],
      Inl NilPointerDereference)"
  unfolding auditResource_def audit_policies.simps audit_policy_timeout
  by simp

lemma auditClusterResource_timeout:
  "auditClusterResource timeout_env [policy_no_selector] (pod ns name) =
     ([PolicyServerRequest ''https://policy-server/audit/no-selector'' name,
       Log ErrorLevel ''error sending AdmissionReview to PolicyServer''
         [(''admissionRequest name'', name), (''policy'', ''no-selector''), (''resource'', name)]],
      Inl NilPointerDereference)"
  unfolding auditClusterResource_def audit_policies.simps audit_policy_timeout
  by simp

lemma audit_item_simps:
  "audit_item audit policies (UnstructuredObject resource) =
     (case audit policies resource of
        (evs, Inl pn) \<Rightarrow> (evs, Inl pn)
      | (evs, Inr u) \<Rightarrow> (evs, Inr None))"
  "audit_item audit policies (OtherObject t) =
     ([], Inr (Some (New ''failed to convert runtime.Object to *unstructured.Unstructured'')))"
  by (simp_all add: audit_item_def)

lemma ScanNamespace_scenario:
  assumes "ns \<noteq> ''bad-ns''"
  shows "ScanNamespace scenario_env ns =
     ([Log InfoLevel ''namespace scan started'' [(''namespace'', ns)],
       Log InfoLevel ''policy count'' [(''namespace'', ns)],
       PolicyServerRequest ''https://policy-server/audit/no-selector'' ''pod1'',
       Log DebugLevel ''audit review response''
         [(''uid'', ''pod1''), (''policy'', ''no-selector''), (''resource'', ''pod1'')],
       StorePolicyReport
         \<lparr>Namespace = ns, Name = ''pod1'', ResourceVersion = [],
          Results = [\<lparr>result_policy = ''no-selector'', result_resource = ''pod1'',
                      result_allowed = True, result_errored = False\<rparr>]\<rparr>,
       PolicyServerRequest ''https://policy-server/audit/no-selector'' ''pod2'',
       Log DebugLevel ''audit review response''
         [(''uid'', ''pod2''), (''policy'', ''no-selector''), (''resource'', ''pod2'')],
       StorePolicyReport
         \<lparr>Namespace = ns, Name = ''pod2'', ResourceVersion = [],
          Results = [\<lparr>result_policy = ''no-selector'', result_resource = ''pod2'',
                      result_allowed = True, result_errored = False\<rparr>]\<rparr>],
      Inr None)"
proof -
  have g: "k8s_GetNamespace scenario_env ns = None"
    "GetPoliciesForANamespace scenario_env ns =
       Inr \<lparr>PoliciesByGVR = [(GVR [] ''v1'' ''pods'', [policy_no_selector])],
            PolicyNum = 1, SkippedNum = 0\<rparr>"
    "GetResources scenario_env (GVR [] ''v1'' ''pods'') ns =
       Inr [Inr (UnstructuredObject (pod ns ''pod1'')), Inr (UnstructuredObject (pod ns ''pod2''))]"
    using assms by (simp_all add: scenario_env_def)
  show ?thesis
    unfolding ScanNamespace_def g
    by (simp add: g audit_item_simps auditResource_scenario emit_def)
qed

lemma ScanNamespace_bad_ns:
  "ScanNamespace scenario_env ''bad-ns'' =
     ([Log InfoLevel ''namespace scan started'' [(''namespace'', ''bad-ns'')]],
      Inr (Some (Status StatusReasonNotFound)))"
  by (simp add: ScanNamespace_def scenario_env_def emit_def)

lemma ScanNamespace_timeout:
  "ScanNamespace timeout_env ''ns1'' =
     ([Log InfoLevel ''namespace scan started'' [(''namespace'', ''ns1'')],
       Log InfoLevel ''policy count'' [(''namespace'', ''ns1'')],
       PolicyServerRequest ''https://policy-server/audit/no-selector'' ''pod1'',
       Log ErrorLevel ''error sending AdmissionReview to PolicyServer''
         [(''admissionRequest name'', ''pod1''), (''policy'', ''no-selector''),
          (''resource'', ''pod1'')]],
      Inl NilPointerDereference)"
proof -
  have g: "k8s_GetNamespace timeout_env ''ns1'' = None"
    "GetPoliciesForANamespace timeout_env ''ns1'' =
       Inr \<lparr>PoliciesByGVR = [(GVR [] ''v1'' ''pods'', [policy_no_selector])],
            PolicyNum = 1, SkippedNum = 0\<rparr>"
    "GetResources timeout_env (GVR [] ''v1'' ''pods'') ''ns1'' =
       Inr [Inr (UnstructuredObject (pod ''ns1'' ''pod1'')),
            Inr (UnstructuredObject (pod ''ns1'' ''pod2''))]"
    by (simp_all add: timeout_env_def scenario_env_def)
  show ?thesis
    unfolding ScanNamespace_def g
    by (simp add: g audit_item_simps auditResource_timeout emit_def)
qed

lemma ScanAllNamespaces_timeout:
  "ScanAllNamespaces timeout_env =
     ([Log InfoLevel ''all-namespaces scan started'' [],
       Log InfoLevel ''namespace scan started'' [(''namespace'', ''ns1'')],
       Log InfoLevel ''policy count'' [(''namespace'', ''ns1'')],
       PolicyServerRequest ''https://policy-server/audit/no-selector'' ''pod1'',
       Log ErrorLevel ''error sending AdmissionReview to PolicyServer''
         [(''admissionRequest name'', ''pod1''), (''policy'', ''no-selector''),
          (''resource'', ''pod1'')]],
      Inl NilPointerDereference)"
proof -
  have g: "GetAuditedNamespaces timeout_env = ([\<lparr>ns_Name = ''ns1''\<rparr>, \<lparr>ns_Name = ''bad-ns''\<rparr>], None)"
    by (simp add: timeout_env_def scenario_env_def)
  show ?thesis
    unfolding ScanAllNamespaces_def g
    by (simp add: ScanNamespace_timeout emit_def)
qed

section \<open>The selector properties on the concrete cluster\<close>

theorem policyMatches_excluded_witness:
  "policyMatches scenario_env (Policy policy_db) (pod ''ns1'' ''pod1'') = ([], False, None)
   \<and> requests (fst (auditResource scenario_env [policy_db, policy_no_selector] (pod ''ns1'' ''pod1'')))
       = [(''https://policy-server/audit/no-selector'', ''pod1'')]"
proof -
  let ?sel = "\<lambda>labels :: string \<rightharpoonup> string.
                list_all (\<lambda>(k, v). labels k = Some v) (MatchLabels selector_db)
                \<and> list_all (\<lambda>req. requirement_matches req labels) (MatchExpressions selector_db)"
  have h1: "GetObjectSelector (Policy policy_db) = Some selector_db"
    by (simp add: policy_db_def)
  have h2: "LabelSelectorAsSelector scenario_env selector_db = Inr ?sel"
    by (simp add: scenario_env_def k8s_LabelSelectorAsSelector_def selector_db_def)
  have h3: "\<not> ?sel (GetLabels (pod ''ns1'' ''pod1''))"
    by (simp add: selector_db_def pod_def)
  from policyMatches_excluded [OF h1 h2 h3, where ps = "[]" and qs = "[policy_no_selector]"
      and add = AddResultToPolicyReport and rep = report_pod1]
  have "policyMatches scenario_env (Policy policy_db) (pod ''ns1'' ''pod1'') = ([], False, None)"
    and "auditResource scenario_env [policy_db, policy_no_selector] (pod ''ns1'' ''pod1'')
           = auditResource scenario_env [policy_no_selector] (pod ''ns1'' ''pod1'')"
    by simp_all
  then show ?thesis by (simp add: auditResource_scenario)
qed

theorem policyMatches_malformed_witness:
  "policyMatches scenario_env (Policy policy_malformed) (pod ''ns1'' ''pod1'') =
     ([Log ErrorLevel ''error creating label selector from policy'' []], False,
      Some (New ''invalid label selector requirement''))
   \<and> snd (auditResource scenario_env [policy_malformed, policy_no_selector] (pod ''ns1'' ''pod1''))
       = Inr ()
   \<and> requests (effects (fst (auditResource scenario_env [policy_malformed, policy_no_selector]
                                 (pod ''ns1'' ''pod1''))))
       = [(''https://policy-server/audit/no-selector'', ''pod1'')]"
proof -
  have h1: "GetObjectSelector (Policy policy_malformed) = Some selector_malformed"
    by (simp add: policy_malformed_def)
  have h2: "LabelSelectorAsSelector scenario_env selector_malformed
              = Inl (New ''invalid label selector requirement'')"
    by (simp add: scenario_env_def k8s_LabelSelectorAsSelector_def selector_malformed_def
        requirement_valid_def)
  from policyMatches_malformed [OF h1 h2, where ps = "[]" and qs = "[policy_no_selector]"
      and add = AddResultToPolicyReport and rep = report_pod1
      and resource = "pod ''ns1'' ''pod1''"]
  have "policyMatches scenario_env (Policy policy_malformed) (pod ''ns1'' ''pod1'') =
          ([Log ErrorLevel ''error creating label selector from policy'' []], False,
           Some (New ''invalid label selector requirement''))"
    and "snd (auditResource scenario_env [policy_malformed, policy_no_selector] (pod ''ns1'' ''pod1''))
           = snd (auditResource scenario_env [policy_no_selector] (pod ''ns1'' ''pod1''))"
    and "effects (fst (auditResource scenario_env [policy_malformed, policy_no_selector] (pod ''ns1'' ''pod1'')))
           = effects (fst (auditResource scenario_env [policy_no_selector] (pod ''ns1'' ''pod1'')))"
    by simp_all
  then show ?thesis by (simp add: auditResource_scenario effects_def)
qed

section \<open>Properties of sendAdmissionReviewToPolicyServer\<close>

text \<open>
  C3, counterexample: where the admission review cannot be serialised the call returns an
  error although no request is sent at all, on a cluster whose policy server answers 200 with
  a body that deserialises.
\<close>

theorem sendAdmissionReview_marshal_error:
  "sendAdmissionReviewToPolicyServer marshal_error_env ''https://policy-server/audit/no-selector''
       (newAdmissionReview (pod ''ns1'' ''pod1''))
     = ([], None, Some (New ''json: unsupported value''))
   \<and> httpClient_Do marshal_error_env ''https://policy-server/audit/no-selector'' ''pod1''
       = Inr \<lparr>StatusCode = 200, Body = Inr ''pod1''\<rparr>
   \<and> json_Unmarshal marshal_error_env ''pod1''
       = Inr \<lparr>Request = None, Response = Some \<lparr>UID = ''pod1'', Allowed = True\<rparr>\<rparr>"
  by (simp add: sendAdmissionReviewToPolicyServer_def marshal_error_env_def scenario_env_def)

text \<open>
  C3, as amended: one call returns an error if and only if the request cannot be serialised,
  the transport fails (the POST fails or the body of the response cannot be read), the status
  is not 200, or the body cannot be deserialised; with an error it returns no response.
  Otherwise it has posted one request and returns the response deserialised from the body,
  so its \<open>Allowed\<close> is that of the payload.
\<close>

theorem sendAdmissionReview_error_iff:
  "sendAdmissionReviewToPolicyServer env url admissionRequest = (evs, resp, err) \<Longrightarrow>
   (err \<noteq> None \<longleftrightarrow>
      (\<exists>e. json_Marshal env admissionRequest = Inl e)
      \<or> (\<exists>payload. json_Marshal env admissionRequest = Inr payload \<and>
           ((\<exists>e. httpClient_Do env url payload = Inl e)
            \<or> (\<exists>res. httpClient_Do env url payload = Inr res \<and>
                 ((\<exists>e. Body res = Inl e)
                  \<or> StatusCode res \<noteq> 200
                  \<or> (\<exists>body e. Body res = Inr body \<and> json_Unmarshal env body = Inl e))))))
   \<and> (err \<noteq> None \<longrightarrow> resp = None)
   \<and> (err = None \<longrightarrow>
        (\<exists>payload res body admissionReview. json_Marshal env admissionRequest = Inr payload
            \<and> httpClient_Do env url payload = Inr res \<and> StatusCode res = 200
            \<and> Body res = Inr body
            \<and> json_Unmarshal env body = Inr admissionReview \<and> resp = Some admissionReview
            \<and> evs = [PolicyServerRequest url payload]))"
  by (auto simp: sendAdmissionReviewToPolicyServer_def split: sum.splits if_splits)

theorem sendAdmissionReview_error_iff_witness:
  "(\<exists>e. httpClient_Do timeout_env ''https://policy-server/audit/no-selector'' ''pod1'' = Inl e)
   \<and> fst (snd (sendAdmissionReviewToPolicyServer timeout_env
                  ''https://policy-server/audit/no-selector'' (newAdmissionReview (pod ''ns1'' ''pod1''))))
       = None
   \<and> snd (snd (sendAdmissionReviewToPolicyServer timeout_env
                  ''https://policy-server/audit/no-selector'' (newAdmissionReview (pod ''ns1'' ''pod1''))))
       \<noteq> None"
proof -
  have d: "httpClient_Do timeout_env ''https://policy-server/audit/no-selector'' ''pod1''
             = Inl (New ''context deadline exceeded'')"
    by (simp add: timeout_env_def)
  have m: "json_Marshal timeout_env (newAdmissionReview (pod ''ns1'' ''pod1'')) = Inr ''pod1''"
    by (simp add: timeout_env_def scenario_env_def newAdmissionReview_def pod_def)
  obtain evs resp err where s:
    "sendAdmissionReviewToPolicyServer timeout_env ''https://policy-server/audit/no-selector''
       (newAdmissionReview (pod ''ns1'' ''pod1'')) = (evs, resp, err)"
    by (cases "sendAdmissionReviewToPolicyServer timeout_env ''https://policy-server/audit/no-selector''
       (newAdmissionReview (pod ''ns1'' ''pod1''))") auto
  from sendAdmissionReview_error_iff [OF s] d m have "err \<noteq> None" "resp = None"
    by auto
  with s d show ?thesis by simp
qed

section \<open>Properties of auditResource\<close>

text \<open>
  Whenever the request for a matching policy fails, the turn of the loop ends in a nil pointer
  dereference: the failed call returned no review, and the call that adds the row reads its
  \<open>Response\<close>.
\<close>

lemma audit_policy_evaluator_error:
  assumes "fst (snd (policyMatches env (Policy p) resource))"
      and "snd (snd (sendAdmissionReviewToPolicyServer env (PolicyServer p)
                       (newAdmissionReview resource))) \<noteq> None"
  shows "snd (audit_policy env add resource p rep) = Inl NilPointerDereference"
proof -
  obtain evs1 m err where pm: "policyMatches env (Policy p) resource = (evs1, m, err)"
    by (cases "policyMatches env (Policy p) resource") auto
  obtain evs2 resp rerr where sd:
    "sendAdmissionReviewToPolicyServer env (PolicyServer p) (newAdmissionReview resource)
       = (evs2, resp, rerr)"
    by (cases "sendAdmissionReviewToPolicyServer env (PolicyServer p) (newAdmissionReview resource)")
       auto
  from sd assms(2) have "resp = None"
    by (auto simp: sendAdmissionReviewToPolicyServer_def split: sum.splits if_splits)
  with pm sd assms show ?thesis
    by (auto simp: audit_policy_def Let_def emit_def newAdmissionReview_def)
qed

text \<open>
  C1, the code at the failing input: one policy without selector, the pod \<open>pod1\<close>, and a
  request that times out. \<open>auditResource\<close> and \<open>auditClusterResource\<close> post the request, log
  the error and then end in a nil pointer dereference; no row is recorded and no report is
  stored. The panic ends the scan of all namespaces after that first pod.
\<close>

theorem auditResource_evaluator_error_panics:
  "auditResource timeout_env [policy_no_selector] (pod ''ns1'' ''pod1'') =
     ([PolicyServerRequest ''https://policy-server/audit/no-selector'' ''pod1'',
       Log ErrorLevel ''error sending AdmissionReview to PolicyServer''
         [(''admissionRequest name'', ''pod1''), (''policy'', ''no-selector''),
          (''resource'', ''pod1'')]],
      Inl NilPointerDereference)
   \<and> auditClusterResource timeout_env [policy_no_selector] (pod ''ns1'' ''pod1'') =
     ([PolicyServerRequest ''https://policy-server/audit/no-selector'' ''pod1'',
       Log ErrorLevel ''error sending AdmissionReview to PolicyServer''
         [(''admissionRequest name'', ''pod1''), (''policy'', ''no-selector''),
          (''resource'', ''pod1'')]],
      Inl NilPointerDereference)
   \<and> ScanAllNamespaces timeout_env =
     ([Log InfoLevel ''all-namespaces scan started'' [],
       Log InfoLevel ''namespace scan started'' [(''namespace'', ''ns1'')],
       Log InfoLevel ''policy count'' [(''namespace'', ''ns1'')],
       PolicyServerRequest ''https://policy-server/audit/no-selector'' ''pod1'',
       Log ErrorLevel ''error sending AdmissionReview to PolicyServer''
         [(''admissionRequest name'', ''pod1''), (''policy'', ''no-selector''),
          (''resource'', ''pod1'')]],
      Inl NilPointerDereference)"
  by (simp only: auditResource_timeout auditClusterResource_timeout ScanAllNamespaces_timeout
      simp_thms)

section \<open>One report for every resource\<close>

lemma send_shape:
  "sendAdmissionReviewToPolicyServer env url admissionRequest = (evs, resp, err) \<Longrightarrow>
     stored_reports evs = [] \<and>
     ((resp = None \<and> err \<noteq> None \<and> length (requests evs) \<le> 1)
      \<or> (resp \<noteq> None \<and> err = None \<and> (\<exists>payload. evs = [PolicyServerRequest url payload])))"
  by (auto simp: sendAdmissionReviewToPolicyServer_def split: sum.splits if_splits)

lemma policyMatches_logs:
  "policyMatches env policy resource = (evs, m, err) \<Longrightarrow> stored_reports evs = [] \<and> requests evs = []"
  by (auto simp: policyMatches_def split: option.splits sum.splits if_splits)

lemma audit_policy_step:
  assumes "audit_policy env add resource p rep = (evs, Inr rep')"
  shows "stored_reports evs = [] \<and>
         (if fst (snd (policyMatches env (Policy p) resource))
          then (\<exists>response payload. rep' = add rep (Policy p) (Some response) False
                  \<and> requests evs = [(PolicyServer p, payload)])
          else rep' = rep \<and> requests evs = [])"
proof -
  obtain evs1 m err where pm: "policyMatches env (Policy p) resource = (evs1, m, err)"
    by (cases "policyMatches env (Policy p) resource") auto
  obtain evs2 resp rerr where sd:
    "sendAdmissionReviewToPolicyServer env (PolicyServer p) (newAdmissionReview resource) = (evs2, resp, rerr)"
    by (cases "sendAdmissionReviewToPolicyServer env (PolicyServer p) (newAdmissionReview resource)") auto
  note l = policyMatches_logs[OF pm] and s = send_shape[OF sd]
  show ?thesis
  proof (cases m)
    case False
    with assms pm l show ?thesis
      by (auto simp: audit_policy_def Let_def emit_def stored_reports_append requests_append)
  next
    case True
    with assms pm sd l s show ?thesis
      by (auto simp: audit_policy_def Let_def emit_def stored_reports_append requests_append
          newAdmissionReview_def split: option.splits if_splits)
  qed
qed


lemma audit_policies_rows:
  assumes "audit_policies env AddResultToPolicyReport resource policies rep = (evs, Inr rep')"
  shows "stored_reports evs = []
         \<and> Namespace rep' = Namespace rep \<and> Name rep' = Name rep
         \<and> length (Results rep') = length (Results rep) + length (requests evs)
         \<and> map result_policy (Results rep') =
             map result_policy (Results rep)
             @ map (\<lambda>p. policy_GetName (Policy p)) (matching env resource policies)
         \<and> map fst (requests evs) = map PolicyServer (matching env resource policies)"
  using assms
proof (induction policies arbitrary: rep evs)
  case Nil
  then show ?case by (simp add: matching_def)
next
  case (Cons p ps)
  obtain evs1 r1 where st: "audit_policy env AddResultToPolicyReport resource p rep = (evs1, r1)"
    by (cases "audit_policy env AddResultToPolicyReport resource p rep")
  with Cons.prems obtain rep1 where r1: "r1 = Inr rep1"
    by (cases r1) auto
  obtain evs2 where lp: "audit_policies env AddResultToPolicyReport resource ps rep1 = (evs2, Inr rep')"
    and evs: "evs = evs1 @ evs2"
    using Cons.prems st r1
    by (cases "audit_policies env AddResultToPolicyReport resource ps rep1") (auto simp: emit_def)
  note step = audit_policy_step[OF st[unfolded r1]]
  note ih = Cons.IH[OF lp]
  show ?case
  proof (cases "fst (snd (policyMatches env (Policy p) resource))")
    case True
    with step obtain response payload where
      "rep1 = AddResultToPolicyReport rep (Policy p) (Some response) False"
      "requests evs1 = [(PolicyServer p, payload)]" "stored_reports evs1 = []"
      by auto
    with ih evs True show ?thesis
      by (simp add: stored_reports_append requests_append matching_def
          AddResultToPolicyReport_def new_result_def)
  next
    case False
    with step have "rep1 = rep" "requests evs1 = []" "stored_reports evs1 = []"
      by auto
    with ih evs False show ?thesis
      by (simp add: stored_reports_append requests_append matching_def)
  qed
qed

lemma auditResource_report:
  assumes "snd (auditResource env policies resource) = Inr u"
  shows "\<exists>evs rep logs.
           fst (auditResource env policies resource) = evs @ StorePolicyReport rep # logs
           \<and> stored_reports evs = [] \<and> list_all is_log logs
           \<and> Namespace rep = GetNamespace resource \<and> Name rep = GetUID resource
           \<and> length (Results rep) = length (requests evs)
           \<and> map result_policy (Results rep) =
               map (\<lambda>p. policy_GetName (Policy p)) (matching env resource policies)
           \<and> map fst (requests evs) = map PolicyServer (matching env resource policies)"
proof -
  obtain evs r where lp:
    "audit_policies env AddResultToPolicyReport resource policies (NewPolicyReport resource) = (evs, r)"
    by (cases "audit_policies env AddResultToPolicyReport resource policies (NewPolicyReport resource)")
  with assms obtain rep where r: "r = Inr rep"
    by (cases r) (auto simp: auditResource_def)
  let ?logs = "if CreateOrPatchPolicyReport env rep \<noteq> None
               then [Log ErrorLevel ''error adding PolicyReport to store'' []] else []"
  have eq: "fst (auditResource env policies resource) = evs @ StorePolicyReport rep # ?logs"
    using lp r by (simp add: auditResource_def)
  have lg: "list_all is_log ?logs" by simp
  from audit_policies_rows[OF lp[unfolded r]]
  have "stored_reports evs = [] \<and> Namespace rep = GetNamespace resource
        \<and> Name rep = GetUID resource
        \<and> length (Results rep) = length (requests evs)
        \<and> map result_policy (Results rep) =
             map (\<lambda>p. policy_GetName (Policy p)) (matching env resource policies)
        \<and> map fst (requests evs) = map PolicyServer (matching env resource policies)"
    by (simp add: NewPolicyReport_def)
  with eq lg show ?thesis by blast
qed

lemma auditResource_stored:
  assumes "snd (auditResource env policies resource) = Inr u"
  shows "map (\<lambda>r. (Namespace r, Name r)) (stored_reports (fst (auditResource env policies resource)))
           = [(GetNamespace resource, GetUID resource)]"
proof -
  from auditResource_report[OF assms] obtain evs rep logs where
    a: "fst (auditResource env policies resource) = evs @ StorePolicyReport rep # logs"
    "stored_reports evs = []" "list_all is_log logs"
    "Namespace rep = GetNamespace resource" "Name rep = GetUID resource"
    by blast
  have "stored_reports logs = []" using a(3)
    by (induction logs rule: stored_reports.induct) simp_all
  with a show ?thesis by (simp add: stored_reports_append)
qed

lemma EachListItem_stored:
  assumes "EachListItem pager (audit_item (auditResource env) policies) = (evs, Inr None)"
  shows "map (\<lambda>r. (Namespace r, Name r)) (stored_reports evs)
           = map (\<lambda>r. (GetNamespace r, GetUID r)) (unstructured_items pager)"
  using assms
proof (induction pager arbitrary: evs)
  case Nil
  then show ?case by simp
next
  case (Cons x rest)
  show ?case
  proof (cases x)
    case (Inl e)
    with Cons.prems show ?thesis by simp
  next
    case (Inr obj)
    show ?thesis
    proof (cases obj)
      case (OtherObject t)
      with Cons.prems Inr show ?thesis by (simp add: audit_item_simps)
    next
      case (UnstructuredObject resource)
      obtain evs1 r1 where ar: "auditResource env policies resource = (evs1, r1)"
        by (cases "auditResource env policies resource")
      with Cons.prems Inr UnstructuredObject obtain u where r1: "r1 = Inr u"
        by (cases r1) (auto simp: audit_item_simps)
      obtain evs2 where rest: "EachListItem rest (audit_item (auditResource env) policies) = (evs2, Inr None)"
        and evs: "evs = evs1 @ evs2"
        using Cons.prems Inr UnstructuredObject ar r1
        by (cases "EachListItem rest (audit_item (auditResource env) policies)")
           (auto simp: audit_item_simps emit_def)
      from auditResource_stored[of env policies resource u] ar r1
      have "map (\<lambda>r. (Namespace r, Name r)) (stored_reports evs1) = [(GetNamespace resource, GetUID resource)]"
        by simp
      with Cons.IH[OF rest] evs Inr UnstructuredObject show ?thesis
        by (simp add: stored_reports_append)
    qed
  qed
qed

lemma scan_gvrs_stored:
  assumes "scan_gvrs env (auditResource env) nsName gvrs = (evs, Inr None)"
  shows "map (\<lambda>r. (Namespace r, Name r)) (stored_reports evs)
           = map (\<lambda>r. (GetNamespace r, GetUID r)) (listed_resources env nsName gvrs)"
  using assms
proof (induction gvrs arbitrary: evs)
  case Nil
  then show ?case by (simp add: listed_resources_def)
next
  case (Cons g rest)
  obtain gvr policies where g: "g = (gvr, policies)" by (cases g)
  from Cons.prems g obtain pager where gr: "GetResources env gvr nsName = Inr pager"
    by (cases "GetResources env gvr nsName") auto
  obtain evs1 r1 where el: "EachListItem pager (audit_item (auditResource env) policies) = (evs1, r1)"
    by (cases "EachListItem pager (audit_item (auditResource env) policies)")
  from Cons.prems g gr el have r1: "r1 = Inr None"
    by (auto split: sum.splits option.splits)
  obtain evs2 where rs: "scan_gvrs env (auditResource env) nsName rest = (evs2, Inr None)"
    and evs: "evs = evs1 @ evs2"
    using Cons.prems g gr el r1
    by (cases "scan_gvrs env (auditResource env) nsName rest") (auto simp: emit_def)
  from EachListItem_stored[OF el[unfolded r1]] Cons.IH[OF rs] evs g gr show ?case
    by (simp add: stored_reports_append listed_resources_def)
qed

lemma ScanNamespace_stored:
  assumes "ScanNamespace env nsName = (evs, Inr None)"
      and "GetPoliciesForANamespace env nsName = Inr pols"
  shows "map (\<lambda>r. (Namespace r, Name r)) (stored_reports evs)
           = map (\<lambda>r. (GetNamespace r, GetUID r)) (listed_resources env nsName (PoliciesByGVR pols))"
proof -
  from assms obtain evs' where
    sg: "scan_gvrs env (auditResource env) nsName (PoliciesByGVR pols) = (evs', Inr None)"
    and evs: "evs = [Log InfoLevel ''namespace scan started'' [(''namespace'', nsName)],
                     Log InfoLevel ''policy count'' [(''namespace'', nsName)]] @ evs'"
    by (cases "scan_gvrs env (auditResource env) nsName (PoliciesByGVR pols)")
       (auto simp: ScanNamespace_def emit_def split: option.splits)
  from scan_gvrs_stored[OF sg] evs show ?thesis by simp
qed


text \<open>
  C2, counterexample: scenario A of the specification. The scan of \<open>ns1\<close>, with one policy
  without selector bound to pods and two pods, returns nil and has handed two reports to the
  store, one for each pod and each with one row; no report has two rows.
\<close>

theorem ScanNamespace_two_pods_two_reports:
  "snd (ScanNamespace scenario_env ''ns1'') = Inr None
   \<and> stored_reports (fst (ScanNamespace scenario_env ''ns1'')) =
       [\<lparr>Namespace = ''ns1'', Name = ''pod1'', ResourceVersion = [],
         Results = [\<lparr>result_policy = ''no-selector'', result_resource = ''pod1'',
                     result_allowed = True, result_errored = False\<rparr>]\<rparr>,
        \<lparr>Namespace = ''ns1'', Name = ''pod2'', ResourceVersion = [],
         Results = [\<lparr>result_policy = ''no-selector'', result_resource = ''pod2'',
                     result_allowed = True, result_errored = False\<rparr>]\<rparr>]"
  by (simp add: ScanNamespace_scenario)

text \<open>
  C2, as amended: a report belongs to one resource, not to one scope. When the audit of a
  resource returns, it has handed exactly one report to the store, after every request for
  that resource; the report is that of the resource and has one row for each policy that
  matches it, in order, one for each request posted. When the scan of a namespace returns nil,
  the reports it has handed to the store are one for each resource listed, in order.
\<close>

theorem auditResource_one_report_per_resource:
  "(snd (auditResource env policies resource) = Inr () \<longrightarrow>
      (\<exists>evs rep logs.
           fst (auditResource env policies resource) = evs @ StorePolicyReport rep # logs
           \<and> stored_reports evs = [] \<and> list_all is_log logs
           \<and> Namespace rep = GetNamespace resource \<and> Name rep = GetUID resource
           \<and> length (Results rep) = length (requests evs)
           \<and> map result_policy (Results rep) =
               map (\<lambda>p. policy_GetName (Policy p)) (matching env resource policies)
           \<and> map fst (requests evs) = map PolicyServer (matching env resource policies)))
   \<and> (ScanNamespace env nsName = (evs', Inr None) \<and> GetPoliciesForANamespace env nsName = Inr pols
        \<longrightarrow> map (\<lambda>r. (Namespace r, Name r)) (stored_reports evs')
             = map (\<lambda>r. (GetNamespace r, GetUID r))
                 (listed_resources env nsName (PoliciesByGVR pols)))"
  using auditResource_report[of env policies resource "()"]
    ScanNamespace_stored[of env nsName evs' pols]
  by blast

theorem auditResource_one_report_per_resource_witness:
  "snd (auditResource scenario_env [policy_no_selector] (pod ''ns1'' ''pod1'')) = Inr ()
   \<and> (\<exists>evs rep logs.
         fst (auditResource scenario_env [policy_no_selector] (pod ''ns1'' ''pod1''))
           = evs @ StorePolicyReport rep # logs
         \<and> stored_reports evs = [] \<and> Name rep = ''pod1'' \<and> length (Results rep) = 1)
   \<and> map (\<lambda>r. (Namespace r, Name r)) (stored_reports (fst (ScanNamespace scenario_env ''ns1'')))
       = [(''ns1'', ''pod1''), (''ns1'', ''pod2'')]"
proof -
  let ?pols = "\<lparr>PoliciesByGVR = [(GVR [] ''v1'' ''pods'', [policy_no_selector])],
               PolicyNum = 1, SkippedNum = 0\<rparr>"
  have r: "snd (auditResource scenario_env [policy_no_selector] (pod ''ns1'' ''pod1'')) = Inr ()"
    by (simp add: auditResource_scenario)
  have s: "ScanNamespace scenario_env ''ns1'' = (fst (ScanNamespace scenario_env ''ns1''), Inr None)"
    by (simp add: ScanNamespace_scenario)
  have g: "GetPoliciesForANamespace scenario_env ''ns1'' = Inr ?pols"
    by (simp add: scenario_env_def)
  have m: "matching scenario_env (pod ''ns1'' ''pod1'') [policy_no_selector] = [policy_no_selector]"
    by (simp add: matching_def policyMatches_no_selector_run)
  have l: "listed_resources scenario_env ''ns1'' [(GVR [] ''v1'' ''pods'', [policy_no_selector])] =
             [pod ''ns1'' ''pod1'', pod ''ns1'' ''pod2'']"
    by (simp add: listed_resources_def scenario_env_def)
  note th = auditResource_one_report_per_resource
    [of scenario_env "[policy_no_selector]" "pod ''ns1'' ''pod1''" "''ns1''"
        "fst (ScanNamespace scenario_env ''ns1'')" ?pols]
  from th r obtain evs rep logs where
    a: "fst (auditResource scenario_env [policy_no_selector] (pod ''ns1'' ''pod1''))
          = evs @ StorePolicyReport rep # logs"
      "stored_reports evs = []" "Name rep = GetUID (pod ''ns1'' ''pod1'')"
      "map result_policy (Results rep) =
         map (\<lambda>p. policy_GetName (Policy p))
           (matching scenario_env (pod ''ns1'' ''pod1'') [policy_no_selector])"
    by blast
  from a(4) have "length (Results rep) = 1"
    by (simp add: m) (metis length_map length_Cons list.size(3) One_nat_def)
  with a have b: "\<exists>evs rep logs.
         fst (auditResource scenario_env [policy_no_selector] (pod ''ns1'' ''pod1''))
           = evs @ StorePolicyReport rep # logs
         \<and> stored_reports evs = [] \<and> Name rep = ''pod1'' \<and> length (Results rep) = 1"
    by (auto simp: pod_def)
  from th s g have "map (\<lambda>r. (Namespace r, Name r)) (stored_reports (fst (ScanNamespace scenario_env ''ns1'')))
      = map (\<lambda>r. (GetNamespace r, GetUID r)) (listed_resources scenario_env ''ns1'' (PoliciesByGVR ?pols))"
    by blast
  then have c: "map (\<lambda>r. (Namespace r, Name r)) (stored_reports (fst (ScanNamespace scenario_env ''ns1'')))
       = [(''ns1'', ''pod1''), (''ns1'', ''pod2'')]"
    by (simp add: l pod_def)
  from r b c show ?thesis by blast
qed

section \<open>Properties of ScanAllNamespaces\<close>

lemma joined_opt_Join:
  "joined_opt (errors_Join [err, Some e]) = joined_opt err @ joined e"
  by (cases err) (simp_all add: errors_Join_def joined_opt_def List.map_filter_simps)

lemma errors_Join_Some: "errors_Join [err, Some e] \<noteq> None"
  by (cases err) (simp_all add: errors_Join_def List.map_filter_simps)

lemma scan_namespaces_result:
  assumes "\<forall>ns \<in> set nsList. snd (ScanNamespace env (ns_Name ns)) \<noteq> Inl NilPointerDereference"
  shows "\<exists>err'. scan_namespaces env nsList err =
            (concat (map (namespace_events env) nsList), Inr err')
          \<and> joined_opt err' = joined_opt err @ concat (map joined (List.map_filter (namespace_error env) nsList))
          \<and> (err' = None \<longleftrightarrow> err = None \<and> List.map_filter (namespace_error env) nsList = [])"
  using assms
proof (induction nsList arbitrary: err)
  case Nil
  show ?case by (simp add: List.map_filter_simps)
next
  case (Cons ns rest)
  obtain evs r where sn: "ScanNamespace env (ns_Name ns) = (evs, r)"
    by (cases "ScanNamespace env (ns_Name ns)")
  from Cons.prems sn have np: "r \<noteq> Inl NilPointerDereference" by simp
  from Cons.prems have rest: "\<forall>ns \<in> set rest. snd (ScanNamespace env (ns_Name ns)) \<noteq> Inl NilPointerDereference"
    by simp
  show ?case
  proof (cases r)
    case (Inl pn)
    with np show ?thesis by (cases pn) simp
  next
    case (Inr res)
    show ?thesis
    proof (cases res)
      case None
      from Cons.IH[OF rest, of err] obtain err' where
        "scan_namespaces env rest err = (concat (map (namespace_events env) rest), Inr err')"
        "joined_opt err' = joined_opt err @ concat (map joined (List.map_filter (namespace_error env) rest))"
        "(err' = None \<longleftrightarrow> err = None \<and> List.map_filter (namespace_error env) rest = [])"
        by blast
      moreover from sn Inr None have "namespace_error env ns = None" "namespace_events env ns = evs"
        by (simp_all add: namespace_events_def namespace_error_def)
      ultimately show ?thesis using sn Inr None
        by (simp add: emit_def List.map_filter_simps)
    next
      case (Some e)
      from Cons.IH[OF rest, of "errors_Join [err, Some e]"] obtain err' where
        "scan_namespaces env rest (errors_Join [err, Some e]) = (concat (map (namespace_events env) rest), Inr err')"
        "joined_opt err' = joined_opt (errors_Join [err, Some e]) @ concat (map joined (List.map_filter (namespace_error env) rest))"
        "(err' = None \<longleftrightarrow> errors_Join [err, Some e] = None \<and> List.map_filter (namespace_error env) rest = [])"
        by blast
      moreover from sn Inr Some have "namespace_error env ns = Some e"
        "namespace_events env ns = evs @ [Log ErrorLevel ''error scanning namespace'' [(''ns'', ns_Name ns)]]"
        by (simp_all add: namespace_events_def namespace_error_def)
      ultimately show ?thesis using sn Inr Some
        by (simp add: emit_def List.map_filter_simps joined_opt_Join errors_Join_Some)
    qed
  qed
qed


text \<open>
  C5, counterexample: when listing the namespaces fails and yields none, no namespace is
  scanned and no scan of a namespace fails, yet \<open>ScanAllNamespaces\<close> returns an error, that
  of the listing.
\<close>

theorem ScanAllNamespaces_listing_error_returned:
  "ScanAllNamespaces listing_error_env =
     ([Log InfoLevel ''all-namespaces scan started'' [],
       Log ErrorLevel ''error scanning all namespaces'' [],
       Log InfoLevel ''all-namespaces scan finished'' []],
      Inr (Some (New ''cannot list namespaces'')))"
  by (simp add: ScanAllNamespaces_def listing_error_env_def emit_def)

text \<open>
  C5, as amended: \<open>ScanAllNamespaces\<close> scans every namespace of the list in order, whether
  or not earlier scans returned errors (no scan ending in a panic); a scan that returns an
  error is logged and the error joined to those before. The call returns the aggregation of
  the error of listing the namespaces, if there was one, and exactly the errors the scans of
  the namespaces returned, in order; it returns nil when there was none of either.
\<close>

theorem ScanAllNamespaces_aggregates:
  assumes "GetAuditedNamespaces env = (nsList, listErr)"
      and "\<forall>ns \<in> set nsList. snd (ScanNamespace env (ns_Name ns)) \<noteq> Inl NilPointerDereference"
  shows "\<exists>err. ScanAllNamespaces env =
            ([Log InfoLevel ''all-namespaces scan started'' []]
             @ (if listErr \<noteq> None then [Log ErrorLevel ''error scanning all namespaces'' []] else [])
             @ concat (map (namespace_events env) nsList)
             @ [Log InfoLevel ''all-namespaces scan finished'' []],
             Inr err)
          \<and> joined_opt err =
              joined_opt listErr @ concat (map joined (List.map_filter (namespace_error env) nsList))
          \<and> (err = None \<longleftrightarrow> listErr = None \<and> List.map_filter (namespace_error env) nsList = [])"
proof -
  from scan_namespaces_result[OF assms(2), of listErr] obtain err where
    s: "scan_namespaces env nsList listErr = (concat (map (namespace_events env) nsList), Inr err)"
    and j: "joined_opt err =
              joined_opt listErr @ concat (map joined (List.map_filter (namespace_error env) nsList))"
    and n: "(err = None \<longleftrightarrow> listErr = None \<and> List.map_filter (namespace_error env) nsList = [])"
    by blast
  from assms(1) s have "ScanAllNamespaces env =
            ([Log InfoLevel ''all-namespaces scan started'' []]
             @ (if listErr \<noteq> None then [Log ErrorLevel ''error scanning all namespaces'' []] else [])
             @ concat (map (namespace_events env) nsList)
             @ [Log InfoLevel ''all-namespaces scan finished'' []],
             Inr err)"
    by (simp add: ScanAllNamespaces_def emit_def)
  with j n show ?thesis by blast
qed

theorem ScanAllNamespaces_aggregates_witness:
  "\<exists>err. snd (ScanAllNamespaces scenario_env) = Inr err
         \<and> joined_opt err = [Status StatusReasonNotFound]
         \<and> stored_reports (fst (ScanAllNamespaces scenario_env)) =
             stored_reports (fst (ScanNamespace scenario_env ''ns1''))"
proof -
  have g: "GetAuditedNamespaces scenario_env =
             ([\<lparr>ns_Name = ''ns1''\<rparr>, \<lparr>ns_Name = ''bad-ns''\<rparr>], None)"
    by (simp add: scenario_env_def)
  have np: "\<forall>ns \<in> set [\<lparr>ns_Name = ''ns1''\<rparr>, \<lparr>ns_Name = ''bad-ns''\<rparr>].
              snd (ScanNamespace scenario_env (ns_Name ns)) \<noteq> Inl NilPointerDereference"
    by (simp add: ScanNamespace_scenario ScanNamespace_bad_ns)
  have e: "namespace_error scenario_env \<lparr>ns_Name = ''ns1''\<rparr> = None"
    "namespace_error scenario_env \<lparr>ns_Name = ''bad-ns''\<rparr> = Some (Status StatusReasonNotFound)"
    by (simp_all add: namespace_error_def ScanNamespace_scenario ScanNamespace_bad_ns)
  have v: "namespace_events scenario_env \<lparr>ns_Name = ''ns1''\<rparr> = fst (ScanNamespace scenario_env ''ns1'')"
    "namespace_events scenario_env \<lparr>ns_Name = ''bad-ns''\<rparr> =
       [Log InfoLevel ''namespace scan started'' [(''namespace'', ''bad-ns'')],
        Log ErrorLevel ''error scanning namespace'' [(''ns'', ''bad-ns'')]]"
    by (simp_all add: namespace_events_def e ScanNamespace_bad_ns)
  from ScanAllNamespaces_aggregates [OF g np] obtain err where
    a: "ScanAllNamespaces scenario_env =
            ([Log InfoLevel ''all-namespaces scan started'' []]
             @ (if (None :: error option) \<noteq> None
                then [Log ErrorLevel ''error scanning all namespaces'' []] else [])
             @ concat (map (namespace_events scenario_env) [\<lparr>ns_Name = ''ns1''\<rparr>, \<lparr>ns_Name = ''bad-ns''\<rparr>])
             @ [Log InfoLevel ''all-namespaces scan finished'' []],
             Inr err)"
    and j: "joined_opt err = joined_opt None
              @ concat (map joined (List.map_filter (namespace_error scenario_env)
                                      [\<lparr>ns_Name = ''ns1''\<rparr>, \<lparr>ns_Name = ''bad-ns''\<rparr>]))"
    by blast
  from j have "joined_opt err = [Status StatusReasonNotFound]"
    by (simp add: List.map_filter_simps e joined_opt_def)
  moreover from a have "stored_reports (fst (ScanAllNamespaces scenario_env)) =
             stored_reports (fst (ScanNamespace scenario_env ''ns1''))"
    by (simp add: v stored_reports_append)
  moreover from a have "snd (ScanAllNamespaces scenario_env) = Inr err" by simp
  ultimately show ?thesis by blast
qed

end
